theory Spec2Isabelle
  imports Main
begin

section \<open>Python values, errors and JSON documents\<close>

text \<open>
  The repository is a CDK application: its constructors assemble a description of cloud
  resources. Keyword arguments are untyped in Python, so a flag or a parameter can hold any
  value; the values that matter to the code are modelled by \<open>pyval\<close>.
\<close>

datatype pyval = PyNone | PyBool bool | PyInt int | PyStr string

datatype error =
    KeyError string
  | TypeError
  | AttributeError string
  | RequestError
  | JsiiError

datatype json =
    JNull
  | JBool bool
  | JNum int
  | JStr string
  | JArr "json list"
  | JObj "(string \<times> json) list"

type_synonym kwargs = "string \<rightharpoonup> pyval"

definition NL :: string where
  "NL = [CHR 0x0A]"

definition e_bind :: "error + 'a \<Rightarrow> ('a \<Rightarrow> error + 'b) \<Rightarrow> error + 'b" where
  "e_bind m f = (case m of Inl e \<Rightarrow> Inl e | Inr x \<Rightarrow> f x)"

text \<open>\<open>d[k]\<close> on a Python dict raises KeyError when the key is missing.\<close>

definition subscript :: "(string \<rightharpoonup> 'a) \<Rightarrow> string \<Rightarrow> error + 'a" where
  "subscript d k = (case d k of None \<Rightarrow> Inl (KeyError k) | Some v \<Rightarrow> Inr v)"

text \<open>
  String concatenation with \<open>+\<close>, for the values a keyword argument can hold: Python
  concatenates two strings and raises TypeError when the other operand is \<open>None\<close>, a
  \<open>bool\<close> or an \<open>int\<close>. \<open>add_str v s\<close> is \<open>v + s\<close> and \<open>str_add s v\<close> is \<open>s + v\<close>, where
  \<open>s\<close> is known to be a string.
\<close>

fun add_str :: "pyval \<Rightarrow> string \<Rightarrow> error + string" where
  "add_str (PyStr a) b = Inr (a @ b)"
| "add_str _ _ = Inl TypeError"

fun str_add :: "string \<Rightarrow> pyval \<Rightarrow> error + string" where
  "str_add a (PyStr b) = Inr (a @ b)"
| "str_add _ _ = Inl TypeError"

text \<open>\<open>x is True\<close>: identity with the singleton \<open>True\<close>.\<close>

definition is_True :: "pyval \<Rightarrow> bool" where
  "is_True v = (v = PyBool True)"

text \<open>Python truthiness of a value (what \<open>if x:\<close> would test).\<close>

fun truthy :: "pyval \<Rightarrow> bool" where
  "truthy PyNone = False"
| "truthy (PyBool b) = b"
| "truthy (PyInt i) = (i \<noteq> 0)"
| "truthy (PyStr s) = (s \<noteq> [])"

text \<open>Lookup of a key in a JSON object; the first binding of the key is the one read.\<close>

fun jget :: "string \<Rightarrow> json \<Rightarrow> json option" where
  "jget k (JObj kvs) = map_of kvs k"
| "jget k _ = None"

text \<open>
  \<open>for stmt in doc["Statement"]\<close>: subscripting needs an object that has the key;
  iteration runs over a list's items, an object's keys or a string's characters and raises
  TypeError on anything else.
\<close>

fun py_iter :: "json \<Rightarrow> error + json list" where
  "py_iter (JArr xs) = Inr xs"
| "py_iter (JObj kvs) = Inr (map (\<lambda>kv. JStr (fst kv)) kvs)"
| "py_iter (JStr s) = Inr (map (\<lambda>c. JStr [c]) s)"
| "py_iter _ = Inl TypeError"

fun statements_of :: "json \<Rightarrow> error + json list" where
  "statements_of (JObj kvs) =
     (case map_of kvs ''Statement'' of
        None \<Rightarrow> Inl (KeyError ''Statement'')
      | Some v \<Rightarrow> py_iter v)"
| "statements_of _ = Inl TypeError"

section \<open>The declared resources\<close>

record environment =
  account :: string
  region :: string

text \<open>
  The network stack (\<open>network/infra.py\<close>) builds the VPC handed to the cluster builder; the
  cluster builder only reads its identifier and its address block, so the VPC is a parameter
  of the model.
\<close>

record vpc =
  vpc_id :: string
  vpc_cidr_block :: string

record role =
  role_id :: string
  assumed_by :: "string list"
  managed_policies :: "string list"
  role_policy :: "json list"

record security_group =
  sg_id :: string
  sg_vpc :: string
  allow_all_outbound :: bool
  ingress_rules :: "(string \<times> string) list"

datatype capacity_type = ON_DEMAND | SPOT

datatype ami_type = AL2_X86_64 | AL2_ARM_64

datatype endpoint_access = PUBLIC | PRIVATE | PUBLIC_AND_PRIVATE

record nodegroup =
  ng_id :: string
  nodegroup_name :: string
  ng_capacity_type :: capacity_type
  min_size :: nat
  desired_size :: nat
  max_size :: nat
  ng_ami_type :: ami_type
  instance_types :: "string list"
  node_role :: string
  ng_subnets :: string

record cluster =
  cluster_id :: string
  cluster_name :: string
  cluster_vpc :: string
  vpc_subnets :: "string list"
  masters_role :: string
  default_capacity :: nat
  cluster_sg :: string
  cluster_endpoint_access :: endpoint_access
  kubernetes_version :: string
  nodegroups :: "nodegroup list"
  cluster_security_group_ingress :: "(string \<times> string) list"

text \<open>
  What \<open>_deploy_addons\<close> declares: each construct has the identifier given in the source,
  a payload, and the constructs named by \<open>node.add_dependency\<close>. Two constructs of
  different kinds may carry the same identifier (the load-balancer controller's service
  account and chart do), so a reference is a kind together with an identifier.
\<close>

datatype kind =
  Manifest | ServiceAccount | Chart | InstanceProfile | SecurityGroup | Instance | Output | Role

type_synonym cref = "kind \<times> string"

datatype resource =
    KubernetesManifest json
  | KubernetesServiceAccount string string "json list"
  | HelmChart string string string string string json
  | CfnInstanceProfile "string list"
  | Ec2SecurityGroup security_group
  | Ec2Instance string string string string string string string "string list"
  | CfnOutput string string

fun kind_of :: "resource \<Rightarrow> kind" where
  "kind_of (KubernetesManifest _) = Manifest"
| "kind_of (KubernetesServiceAccount _ _ _) = ServiceAccount"
| "kind_of (HelmChart _ _ _ _ _ _) = Chart"
| "kind_of (CfnInstanceProfile _) = InstanceProfile"
| "kind_of (Ec2SecurityGroup _) = SecurityGroup"
| "kind_of (Ec2Instance _ _ _ _ _ _ _ _) = Instance"
| "kind_of (CfnOutput _ _) = Output"

record construct =
  cid :: string
  payload :: resource
  dependencies :: "cref list"

definition cref_of :: "construct \<Rightarrow> cref" where
  "cref_of c = (kind_of (payload c), cid c)"

text \<open>The object under construction: the attributes of \<open>PlatformEKS\<close>.\<close>

record platform_eks =
  flags :: "string \<rightharpoonup> pyval"
  params :: "string \<rightharpoonup> pyval"
  env :: environment
  eks_vpc :: vpc
  cluster_admin_role :: role
  eks_security_group :: security_group
  eks_cluster :: cluster
  nodegroup_roles :: "role list"
  ssm_agent_manifest :: "cref option"
  bastion :: "cref option"
  addons :: "construct list"

section \<open>The libraries the code calls\<close>

text \<open>
  The code hands its declarations to the CDK and fetches one document over the network.
  How these answer is not part of the repository, so it is a parameter of the model:
  \<^item> \<open>requests_get k\<close> is the outcome of the \<open>k\<close>-th request of a run: the parsed body, or
    the exception of \<open>requests.get\<close> or \<open>resp.json\<close>;
  \<^item> \<open>from_json j\<close> is the outcome of \<open>iam.PolicyStatement.from_json\<close> on a fetched
    statement \<open>j\<close>: the statement as the library holds it, or the exception raised when
    the library rejects it;
  \<^item> \<open>deployment i stacks\<close> is the list of actions, each with its run order, that
    \<open>add_application_stage\<close> declares for the stage with identifier \<open>i\<close> and these stacks.

  The three policy statements that are written out in the source are well formed (an
  effect, an action, a resource); the library accepts them, and they are recorded as
  written.
\<close>

datatype artifact = Artifact nat

datatype action =
    GitHubSourceAction string artifact string string string string
  | SimpleSynthAction artifact artifact "string list" string
  | PrepareAction string string
  | DeployAction string string
  | ManualApprovalAction string

record library =
  requests_get :: "nat \<Rightarrow> error + json"
  from_json :: "json \<Rightarrow> error + json"
  deployment :: "string \<Rightarrow> string list \<Rightarrow> (action \<times> nat) list"

section \<open>eks/eks.py\<close>

definition DEPLOY_CLUSTER_AUTOSCALER :: string where
  "DEPLOY_CLUSTER_AUTOSCALER = ''deploy_cluster_autoscaler''"

definition DEPLOY_AWS_LB_CONTROLLER :: string where
  "DEPLOY_AWS_LB_CONTROLLER = ''deploy_alb_controller''"

definition CLUSTER_NAME :: string where
  "CLUSTER_NAME = ''cluster_name''"

definition ENV :: string where
  "ENV = ''env_name''"

definition AWS_LB_CONTROLLER :: string where
  "AWS_LB_CONTROLLER = ''aws-load-balancer-controller''"

definition flags_names :: "string list" where
  "flags_names = [DEPLOY_CLUSTER_AUTOSCALER, DEPLOY_AWS_LB_CONTROLLER]"

definition params_names :: "string list" where
  "params_names = [CLUSTER_NAME, ENV]"

text \<open>
  \<open>_extract_params_from_kwargs\<close>: every parameter defaults to its own name and is
  overwritten by the keyword argument when there is one. The loop runs over
  \<open>params_names\<close>, the dictionary being the accumulator.
\<close>

fun extract_params_loop :: "string list \<Rightarrow> kwargs \<Rightarrow> (string \<rightharpoonup> pyval) \<Rightarrow> (string \<rightharpoonup> pyval)" where
  "extract_params_loop [] kw parameters = parameters"
| "extract_params_loop (param # rest) kw parameters =
     extract_params_loop rest kw
       (case kw param of
          None \<Rightarrow> parameters(param \<mapsto> PyStr param)
        | Some v \<Rightarrow> (parameters(param \<mapsto> PyStr param))(param \<mapsto> v))"

definition extract_params_from_kwargs :: "kwargs \<Rightarrow> (string \<rightharpoonup> pyval)" where
  "extract_params_from_kwargs kw = extract_params_loop params_names kw Map.empty"

text \<open>\<open>_extract_flags_from_kwargs\<close>: every flag defaults to \<open>True\<close>.\<close>

fun extract_flags_loop :: "string list \<Rightarrow> kwargs \<Rightarrow> (string \<rightharpoonup> pyval) \<Rightarrow> (string \<rightharpoonup> pyval)" where
  "extract_flags_loop [] kw fl = fl"
| "extract_flags_loop (flag # rest) kw fl =
     extract_flags_loop rest kw
       (case kw flag of
          None \<Rightarrow> fl(flag \<mapsto> PyBool True)
        | Some v \<Rightarrow> (fl(flag \<mapsto> PyBool True))(flag \<mapsto> v))"

definition extract_flags_from_kwargs :: "kwargs \<Rightarrow> (string \<rightharpoonup> pyval)" where
  "extract_flags_from_kwargs kw = extract_flags_loop flags_names kw Map.empty"

definition ec2_principals :: "string list" where
  "ec2_principals = [''AccountRootPrincipal'', ''ec2.amazonaws.com'']"

definition cluster_admin_policy_statement_json_1 :: json where
  "cluster_admin_policy_statement_json_1 =
     JObj [(''Effect'', JStr ''Allow''),
           (''Action'', JArr [JStr ''eks:DescribeCluster'']),
           (''Resource'', JStr ''*'')]"

text \<open>
  \<open>_create_eks\<close>: the administrative role, the control-plane security group and the
  cluster. The cluster name is \<open>params[CLUSTER_NAME] + "-" + params[ENV]\<close>, which raises
  when a parameter is not a string.
\<close>

definition create_eks ::
  "(string \<rightharpoonup> pyval) \<Rightarrow> vpc \<Rightarrow> error + (role \<times> security_group \<times> cluster)" where
  "create_eks ps v =
     (let admin = \<lparr>role_id = ''ClusterAdminRole'', assumed_by = ec2_principals,
                    managed_policies = [],
                    role_policy = [cluster_admin_policy_statement_json_1]\<rparr>;
          sg = \<lparr>sg_id = ''EKSSecurityGroup'', sg_vpc = vpc_id v, allow_all_outbound = True,
                 ingress_rules = [(vpc_cidr_block v, ''all_traffic'')]\<rparr>
      in e_bind (subscript ps CLUSTER_NAME) (\<lambda>cn.
         e_bind (add_str cn ''-'') (\<lambda>cn_dash.
         e_bind (subscript ps ENV) (\<lambda>en.
         e_bind (str_add cn_dash en) (\<lambda>name.
           Inr (admin, sg,
                \<lparr>cluster_id = ''cluster'', cluster_name = name, cluster_vpc = vpc_id v,
                 vpc_subnets = [''eks-control-plane''],
                 masters_role = role_id admin, default_capacity = 0,
                 cluster_sg = sg_id sg, cluster_endpoint_access = PRIVATE,
                 kubernetes_version = ''1.20'', nodegroups = [],
                 cluster_security_group_ingress = []\<rparr>))))))"

definition required_nodegroup_managed_policy :: "string list" where
  "required_nodegroup_managed_policy =
     [''AmazonSSMManagedInstanceCore'', ''AmazonEKSWorkerNodePolicy'',
      ''AmazonEKS_CNI_Policy'', ''AmazonEC2ContainerRegistryReadOnly'']"

definition nodegroup_role :: "string \<Rightarrow> role" where
  "nodegroup_role i =
     \<lparr>role_id = i, assumed_by = ec2_principals,
      managed_policies = required_nodegroup_managed_policy, role_policy = []\<rparr>"

definition add_nodegroup_capacity :: "nodegroup \<Rightarrow> cluster \<Rightarrow> cluster" where
  "add_nodegroup_capacity ng c = c\<lparr>nodegroups := nodegroups c @ [ng]\<rparr>"

definition od_default_nodegroup :: nodegroup where
  "od_default_nodegroup =
     \<lparr>ng_id = ''ODDefaultNodegroup'', nodegroup_name = ''od-default-ng'',
      ng_capacity_type = ON_DEMAND, min_size = 0, desired_size = 1, max_size = 10,
      ng_ami_type = AL2_X86_64, instance_types = [''m5.large''],
      node_role = ''ODDefaultNGRole'', ng_subnets = ''Private''\<rparr>"

definition spot_default_nodegroup :: nodegroup where
  "spot_default_nodegroup =
     \<lparr>ng_id = ''SpotDefaultNodegroup'', nodegroup_name = ''spot-default-ng'',
      ng_capacity_type = SPOT, min_size = 0, desired_size = 1, max_size = 10,
      ng_ami_type = AL2_X86_64,
      instance_types = [''m5.large'', ''c5.large'', ''m4.large'', ''c4.large''],
      node_role = ''SPOTDefaultNGRole'', ng_subnets = ''Private''\<rparr>"

definition od_graviton_nodegroup :: nodegroup where
  "od_graviton_nodegroup =
     \<lparr>ng_id = ''ODGravitonNodegroup'', nodegroup_name = ''od-graviton-ng'',
      ng_capacity_type = SPOT, min_size = 0, desired_size = 0, max_size = 10,
      ng_ami_type = AL2_ARM_64, instance_types = [''m6g.large''],
      node_role = ''ODGravitonNGRole'', ng_subnets = ''Private''\<rparr>"

text \<open>\<open>_create_nodegroups\<close>: three roles, then three node groups added to the cluster.\<close>

definition create_nodegroups :: "platform_eks \<Rightarrow> platform_eks" where
  "create_nodegroups s =
     s\<lparr>nodegroup_roles :=
         [nodegroup_role ''ODDefaultNGRole'', nodegroup_role ''SPOTDefaultNGRole'',
          nodegroup_role ''ODGravitonNGRole''],
       eks_cluster :=
         add_nodegroup_capacity od_graviton_nodegroup
           (add_nodegroup_capacity spot_default_nodegroup
             (add_nodegroup_capacity od_default_nodegroup (eks_cluster s)))\<rparr>"

section \<open>Add-ons\<close>

definition ssm_installer_labels :: json where
  "ssm_installer_labels = JObj [(''k8s-app'', JStr ''ssm-installer'')]"

definition ssm_agent_container :: json where
  \<open>ssm_agent_container =
     JObj [(''image'', JStr ''amazonlinux''),
           (''imagePullPolicy'', JStr ''Always''),
           (''name'', JStr ''ssm''),
           (''command'', JArr [JStr ''/bin/bash'']),
           (''args'', JArr [JStr ''-c'',
              JStr ''echo '* * * * * root yum install -y https://s3.amazonaws.com/ec2-downloads-windows/SSMAgent/latest/linux_amd64/amazon-ssm-agent.rpm & rm -rf /etc/cron.d/ssmstart' > /etc/cron.d/ssmstart'']),
           (''securityContext'', JObj [(''allowPrivilegeEscalation'', JBool True)]),
           (''volumeMounts'',
              JArr [JObj [(''mountPath'', JStr ''/etc/cron.d''), (''name'', JStr ''cronfile'')]]),
           (''terminationMessagePath'', JStr ''/dev/termination-log''),
           (''terminationMessagePolicy'', JStr ''File'')]\<close>

definition ssm_agent_manifest_body :: json where
  "ssm_agent_manifest_body =
     JObj [(''apiVersion'', JStr ''apps/v1''),
           (''kind'', JStr ''DaemonSet''),
           (''metadata'',
              JObj [(''labels'', ssm_installer_labels),
                    (''name'', JStr ''ssm-installer''),
                    (''namespace'', JStr ''kube-system'')]),
           (''spec'',
              JObj [(''selector'', JObj [(''matchLabels'', ssm_installer_labels)]),
                    (''template'',
                       JObj [(''metadata'', JObj [(''labels'', ssm_installer_labels)]),
                             (''spec'',
                                JObj [(''containers'', JArr [ssm_agent_container]),
                                      (''volumes'',
                                         JArr [JObj [(''name'', JStr ''cronfile''),
                                                     (''hostPath'',
                                                        JObj [(''path'', JStr ''/etc/cron.d''),
                                                              (''type'', JStr ''Directory'')])]]),
                                      (''dnsPolicy'', JStr ''ClusterFirst''),
                                      (''restartPolicy'', JStr ''Always''),
                                      (''schedulerName'', JStr ''default-scheduler''),
                                      (''terminationGracePeriodSeconds'', JNum 30)])])])]"

text \<open>
  \<open>_deploy_ssm_agent\<close>: the daemon set manifest is added to the cluster and remembered in
  \<open>self.ssm_agent_manifest\<close>.
\<close>

definition deploy_ssm_agent :: "platform_eks \<Rightarrow> platform_eks" where
  "deploy_ssm_agent s =
     s\<lparr>ssm_agent_manifest := Some (Manifest, ''SSMAgentManifest''),
       addons := addons s @
         [\<lparr>cid = ''SSMAgentManifest'', payload = KubernetesManifest ssm_agent_manifest_body,
           dependencies = []\<rparr>]\<rparr>"

definition cluster_autoscaler_policy_statement :: json where
  "cluster_autoscaler_policy_statement =
     JObj [(''Effect'', JStr ''Allow''),
           (''Action'',
              JArr [JStr ''autoscaling:DescribeAutoScalingGroups'',
                    JStr ''autoscaling:DescribeAutoScalingInstances'',
                    JStr ''autoscaling:DescribeLaunchConfigurations'',
                    JStr ''autoscaling:DescribeTags'',
                    JStr ''autoscaling:SetDesiredCapacity'',
                    JStr ''autoscaling:TerminateInstanceInAutoScalingGroup'',
                    JStr ''ec2:DescribeLaunchTemplateVersions'']),
           (''Resource'', JStr ''*'')]"

text \<open>The string \<open>"10: \n  - \n  - od*\n20: \n  - spot*"\<close> of the source.\<close>

definition expander_priorities :: string where
  "expander_priorities =
     ''10: '' @ NL @ ''  - '' @ NL @ ''  - od*'' @ NL @ ''20: '' @ NL @ ''  - spot*''"

definition ca_priority_expander_config_map :: json where
  "ca_priority_expander_config_map =
     JObj [(''apiVersion'', JStr ''v1''),
           (''kind'', JStr ''ConfigMap''),
           (''metadata'',
              JObj [(''name'', JStr ''cluster-autoscaler-priority-expander''),
                    (''namespace'', JStr ''kube-system'')]),
           (''data'', JObj [(''priorities'', JStr expander_priorities)])]"

definition cluster_autoscaler_values :: "string \<Rightarrow> string \<Rightarrow> string \<Rightarrow> json" where
  "cluster_autoscaler_values cname rgn ca_sa_name =
     JObj [(''autoDiscovery'', JObj [(''clusterName'', JStr cname)]),
           (''awsRegion'', JStr rgn),
           (''resources'',
              JObj [(''requests'', JObj [(''cpu'', JStr ''1''), (''memory'', JStr ''512Mi'')]),
                    (''limits'', JObj [(''cpu'', JStr ''1''), (''memory'', JStr ''512Mi'')])]),
           (''rbac'',
              JObj [(''serviceAccount'',
                       JObj [(''create'', JBool False), (''name'', JStr ca_sa_name)])]),
           (''extraArgs'',
              JObj [(''expander'', JStr ''priority''),
                    (''max-node-provision-time'', JStr ''5m0s'')]),
           (''replicaCount'', JNum 1)]"

text \<open>
  \<open>_deploy_cluster_autoscaler\<close>: a service account with its policy, the priority-expander
  ConfigMap and the chart; the chart is made to depend on \<open>self.ssm_agent_manifest\<close>, an
  attribute that exists only after \<open>_deploy_ssm_agent\<close> has run.
\<close>

definition deploy_cluster_autoscaler :: "platform_eks \<Rightarrow> error + platform_eks" where
  "deploy_cluster_autoscaler s =
     (let ca_sa_name = ''cluster-autoscaler'';
          sa = \<lparr>cid = ''cluster_autoscaler'',
                 payload = KubernetesServiceAccount ca_sa_name ''kube-system''
                             [cluster_autoscaler_policy_statement],
                 dependencies = []\<rparr>;
          cm = \<lparr>cid = ''CAPriorityExpanderConfigMap'',
                 payload = KubernetesManifest ca_priority_expander_config_map,
                 dependencies = []\<rparr>;
          chart = \<lparr>cid = ''cluster-autoscaler'',
                    payload = HelmChart ''cluster-autoscaler'' ''9.9.2'' ''cluster-autoscaler''
                                ''https://kubernetes.github.io/autoscaler'' ''kube-system''
                                (cluster_autoscaler_values (cluster_name (eks_cluster s))
                                   (region (env s)) ca_sa_name),
                    dependencies = []\<rparr>
      in case ssm_agent_manifest s of
           None \<Rightarrow> Inl (AttributeError ''ssm_agent_manifest'')
         | Some m \<Rightarrow>
             Inr (s\<lparr>addons := addons s @ [sa, cm, chart\<lparr>dependencies := [m]\<rparr>]\<rparr>))"

definition aws_lb_controller_values :: "string \<Rightarrow> string \<Rightarrow> string \<Rightarrow> json" where
  "aws_lb_controller_values cname rgn vid =
     JObj [(''clusterName'', JStr cname),
           (''region'', JStr rgn),
           (''vpcId'', JStr vid),
           (''serviceAccount'',
              JObj [(''create'', JBool False), (''name'', JStr AWS_LB_CONTROLLER)]),
           (''replicaCount'', JNum 2)]"

text \<open>
  The loop \<open>for stmt in policy["Statement"]: sa.add_to_principal_policy(from_json(stmt))\<close>:
  it stops at the first statement the library rejects.
\<close>

fun add_statements ::
  "(json \<Rightarrow> error + json) \<Rightarrow> json list \<Rightarrow> json list \<Rightarrow> error + json list" where
  "add_statements fj [] policy = Inr policy"
| "add_statements fj (stmt # rest) policy =
     e_bind (fj stmt) (\<lambda>st. add_statements fj rest (policy @ [st]))"

text \<open>
  The request, the parsing of its body, the lookup of \<open>"Statement"\<close> and the loop over
  the statements, in the order in which the source runs them.
\<close>

definition fetch_policy_statements :: "library \<Rightarrow> nat \<Rightarrow> error + json list" where
  "fetch_policy_statements lib n =
     e_bind (requests_get lib n) (\<lambda>aws_load_balancer_controller_policy.
     e_bind (statements_of aws_load_balancer_controller_policy) (\<lambda>stmts.
       add_statements (from_json lib) stmts []))"

text \<open>
  \<open>_deploy_aws_load_balancer_controller\<close>: the service account with the fetched
  statements, and the chart, which depends on the service account. The number of requests
  made so far is threaded through.
\<close>

definition deploy_aws_load_balancer_controller ::
  "library \<Rightarrow> nat \<Rightarrow> platform_eks \<Rightarrow> error + (platform_eks \<times> nat)" where
  "deploy_aws_load_balancer_controller lib n s =
     e_bind (fetch_policy_statements lib n) (\<lambda>stmts.
       let sa = \<lparr>cid = ''aws-load-balancer-controller'',
                  payload = KubernetesServiceAccount AWS_LB_CONTROLLER ''kube-system'' stmts,
                  dependencies = []\<rparr>;
           chart = \<lparr>cid = ''aws-load-balancer-controller'',
                     payload = HelmChart ''aws-load-balancer-controller'' ''1.2.3''
                                 ''aws-lb-controller'' ''https://aws.github.io/eks-charts''
                                 ''kube-system''
                                 (aws_lb_controller_values (cluster_name (eks_cluster s))
                                    (region (env s)) (vpc_id (eks_vpc s))),
                     dependencies = [cref_of sa]\<rparr>
       in Inr (s\<lparr>addons := addons s @ [sa, chart]\<rparr>, Suc n))"

definition bastion_secrets_manager_policy :: json where
  "bastion_secrets_manager_policy =
     JObj [(''Effect'', JStr ''Allow''),
           (''Action'', JStr ''secretsmanager:GetSecretValue''),
           (''Resource'',
              JArr [JStr ''arn:aws:secretsmanager:eu-west-1:*:secret:github-token*'',
                    JStr ''arn:aws:secretsmanager:eu-west-1:*:secret:github-user*''])]"

text \<open>The commands appended to the bastion's user data, in order.\<close>

definition bastion_user_data :: "string \<Rightarrow> string \<Rightarrow> string list" where
  \<open>bastion_user_data cname rgn =
     [''yum -y install perl-Digest-SHA'',
      ''mkdir -p ~/.local/lib ~/.local/bin ~/.config/code-server'',
      ''curl -fL https://github.com/cdr/code-server/releases/download/v3.9.1/code-server-3.9.1-linux-amd64.tar.gz | tar -C ~/.local/lib -xz'',
      ''mv ~/.local/lib/code-server-3.9.1-linux-amd64 ~/.local/lib/code-server-3.9.1'',
      ''ln -s ~/.local/lib/code-server-3.9.1/bin/code-server ~/.local/bin/code-server'',
      ''echo "bind-addr: 0.0.0.0:8080" > ~/.config/code-server/config.yaml'',
      ''echo "auth: password" >> ~/.config/code-server/config.yaml'',
      ''echo "password: $(curl -s http://169.254.169.254/latest/meta-data/instance-id)" >> ~/.config/code-server/config.yaml'',
      ''echo "cert: false" >> ~/.config/code-server/config.yaml'',
      ''~/.local/bin/code-server &'',
      ''echo "/root/.local/bin/code-server &" >> /etc/rc.d/rc.local'',
      ''chmod a+x /etc/rc.d/rc.local'',
      ''curl -o kubectl https://amazon-eks.s3.us-west-2.amazonaws.com/1.19.6/2021-01-05/bin/linux/amd64/kubectl'',
      ''chmod +x ./kubectl'',
      ''mv ./kubectl /usr/bin'',
      ''curl https://intoli.com/install-google-chrome.sh | bash'',
      ''~/.local/bin/code-server --install-extension auchenberg.vscode-browser-preview'',
      ''aws eks update-kubeconfig --name '' @ cname @ '' --region '' @ rgn,
      ''PATH=$PATH:/usr/local/bin'',
      ''export KUBECONFIG=~/.kube/config'',
      ''curl -s https://fluxcd.io/install.sh | sudo bash'',
      ''echo 'PATH=$PATH:/usr/local/bin' >> ~/.bash_profile'',
      ''echo '. <(flux completion bash)' >> ~/.bash_profile'',
      ''export GITHUB_TOKEN=$(aws --region '' @ rgn @
        '' secretsmanager get-secret-value --secret-id github-token --query 'SecretString' --output text)'',
      ''export GITHUB_USER=$(aws --region '' @ rgn @
        '' secretsmanager get-secret-value --secret-id github-user --query 'SecretString' --output text)'',
      ''KUBECONFIG=~/.kube/config flux bootstrap github '' @ replicate 54 CHR '' '' @
        ''--owner=$GITHUB_USER '' @ replicate 54 CHR '' '' @
        ''--repository=flux-system-eks '' @ replicate 54 CHR '' '' @
        ''--path=clusters/'' @ cname @ '' '' @ replicate 54 CHR '' '' @
        ''--personal'']\<close>

text \<open>
  \<open>_deploy_bastion\<close>: an instance profile for the administrative role (which also
  receives a managed policy and a secrets policy), a security group open on port 8080
  that is let into the cluster's own security group, the instance with its user data, and
  an output with its address. Its last statement orders the instance after
  \<open>self.ssm_agent_manifest\<close>.
\<close>

definition deploy_bastion :: "platform_eks \<Rightarrow> error + platform_eks" where
  "deploy_bastion s =
     (let admin = cluster_admin_role s;
          cluster_admin_role_instance_profile =
            \<lparr>cid = ''ClusterAdminRoleInstanceProfile'',
             payload = CfnInstanceProfile [role_id admin],
             dependencies = [(Role, role_id admin)]\<rparr>;
          admin' = admin\<lparr>managed_policies :=
                            managed_policies admin @ [''AmazonSSMManagedInstanceCore''],
                          role_policy := role_policy admin @ [bastion_secrets_manager_policy]\<rparr>;
          bastion_security_group =
            \<lparr>sg_id = ''BastionSecurityGroup'', sg_vpc = vpc_id (eks_vpc s),
             allow_all_outbound = True, ingress_rules = [(''0.0.0.0/0'', ''tcp:8080'')]\<rparr>;
          cl = eks_cluster s;
          cl' = cl\<lparr>cluster_security_group_ingress :=
                     cluster_security_group_ingress cl @
                       [(sg_id bastion_security_group, ''all_traffic'')]\<rparr>;
          inst = \<lparr>cid = ''EKSBastion'',
                   payload = Ec2Instance ''t3.large'' ''amazon_linux_2'' (role_id admin')
                               (vpc_id (eks_vpc s)) (cluster_name cl' @ ''-bastion'')
                               ''PUBLIC'' (sg_id bastion_security_group)
                               (bastion_user_data (cluster_name cl') (region (env s))),
                   dependencies = []\<rparr>;
          out = \<lparr>cid = ''BastionAddress'',
                  payload = CfnOutput (''http://'' @ ''EKSBastion.instance_public_ip'' @ '':8080'')
                              ''Address to reach your Bastion's VS Code Web UI'',
                  dependencies = []\<rparr>
      in case ssm_agent_manifest s of
           None \<Rightarrow> Inl (AttributeError ''ssm_agent_manifest'')
         | Some m \<Rightarrow>
             Inr (s\<lparr>cluster_admin_role := admin',
                    eks_cluster := cl',
                    bastion := Some (cref_of inst),
                    addons := addons s @
                      [cluster_admin_role_instance_profile,
                       \<lparr>cid = sg_id bastion_security_group,
                        payload = Ec2SecurityGroup bastion_security_group,
                        dependencies = []\<rparr>,
                       inst\<lparr>dependencies := [m]\<rparr>, out]\<rparr>))"

text \<open>
  \<open>_deploy_addons\<close>: the agent, the bastion, then each optional add-on when its flag
  \<open>is True\<close>.
\<close>

definition deploy_addons ::
  "library \<Rightarrow> nat \<Rightarrow> platform_eks \<Rightarrow> error + (platform_eks \<times> nat)" where
  "deploy_addons lib n s =
     e_bind (deploy_bastion (deploy_ssm_agent s)) (\<lambda>s2.
     e_bind (subscript (flags s2) DEPLOY_CLUSTER_AUTOSCALER) (\<lambda>f1.
     e_bind (if is_True f1 then deploy_cluster_autoscaler s2 else Inr s2) (\<lambda>s3.
     e_bind (subscript (flags s3) DEPLOY_AWS_LB_CONTROLLER) (\<lambda>f2.
       if is_True f2 then deploy_aws_load_balancer_controller lib n s3
       else Inr (s3, n)))))"

text \<open>
  \<open>PlatformEKS.__init__\<close>: flags and parameters are read from the keyword arguments,
  then the cluster, the node groups and the add-ons are declared, in this order.
\<close>

definition PlatformEKS ::
  "library \<Rightarrow> nat \<Rightarrow> vpc \<Rightarrow> environment \<Rightarrow> kwargs \<Rightarrow>
     error + (platform_eks \<times> nat)" where
  "PlatformEKS lib n v e kw =
     (let fl = extract_flags_from_kwargs kw;
          ps = extract_params_from_kwargs kw
      in e_bind (create_eks ps v) (\<lambda>(admin, sg, cl).
           deploy_addons lib n
             (create_nodegroups
                \<lparr>flags = fl, params = ps, env = e, eks_vpc = v,
                 cluster_admin_role = admin, eks_security_group = sg, eks_cluster = cl,
                 nodegroup_roles = [], ssm_agent_manifest = None, bastion = None,
                 addons = []\<rparr>)))"

section \<open>deployment.py\<close>

text \<open>
  A \<open>Platform\<close> stage holds a network stack and a cluster stack. \<open>network/infra.py\<close> is
  not part of the sources read here, so the VPC that \<open>PlatformNetwork\<close> declares in a
  stage is a parameter: \<open>network i\<close> is the VPC of the stage with identifier \<open>i\<close>.
\<close>

record platform =
  stage_id :: string
  stage_env :: environment
  stage_outdir :: "string option"
  stage_stacks :: "string list"
  network_vpc :: vpc
  eks :: platform_eks

text \<open>
  The keyword arguments handed to \<open>PlatformEKS\<close>: the environment name, and the cluster
  name, which is \<open>"eks"\<close> unless \<open>cluster_name\<close> is among the keyword arguments of the
  stage.
\<close>

definition platform_cluster_name :: "kwargs \<Rightarrow> pyval" where
  "platform_cluster_name kw =
     (let cluster_name = PyStr ''eks''
      in case kw ''cluster_name'' of None \<Rightarrow> cluster_name | Some v \<Rightarrow> v)"

definition platform_eks_kwargs :: "pyval \<Rightarrow> kwargs \<Rightarrow> kwargs" where
  "platform_eks_kwargs env_name kw =
     [''env_name'' \<mapsto> env_name, ''cluster_name'' \<mapsto> platform_cluster_name kw]"

text \<open>
  \<open>env_name\<close> is a keyword parameter with the default \<open>"eks-env"\<close>: \<open>None\<close> stands
  for a call that does not give it.
\<close>

definition env_name_of :: "pyval option \<Rightarrow> pyval" where
  "env_name_of a = (case a of None \<Rightarrow> PyStr ''eks-env'' | Some v \<Rightarrow> v)"

text \<open>\<open>Platform.__init__\<close>.\<close>

definition Platform ::
  "(string \<Rightarrow> vpc) \<Rightarrow> library \<Rightarrow> nat \<Rightarrow> string \<Rightarrow> environment \<Rightarrow>
     string option \<Rightarrow> pyval option \<Rightarrow> kwargs \<Rightarrow> error + (platform \<times> nat)" where
  "Platform network lib n sid e outdir env_name_arg kw =
     (let env_name = env_name_of env_name_arg;
          v = network sid
      in e_bind (PlatformEKS lib n v e (platform_eks_kwargs env_name kw)) (\<lambda>(k, n').
           Inr (\<lparr>stage_id = sid, stage_env = e, stage_outdir = outdir,
                 stage_stacks = [''Network'', ''EKS''], network_vpc = v, eks = k\<rparr>, n')))"

section \<open>pipeline.py\<close>

text \<open>A pipeline stage: its actions, each with its run order.\<close>

record pipeline_stage =
  stage_name :: string
  stage_actions :: "(action \<times> nat) list"

text \<open>
  What \<open>pipeline.py\<close> hands to \<open>CdkPipeline\<close>: the two actions and the cloud-assembly
  artifact given to its constructor, and the stages added with \<open>add_application_stage\<close>,
  in the order of the calls. The stages that the library sets up by itself are not part
  of this record.
\<close>

record cdk_pipeline =
  pipeline_id :: string
  source_action :: action
  synth_action :: action
  single_publisher_per_type :: bool
  cdk_cli_version :: string
  cloud_assembly_artifact :: artifact
  application_stages :: "pipeline_stage list"

record pipeline =
  stack_id :: string
  stack_env :: environment
  engine :: cdk_pipeline
  pre_prod_platform_stage :: platform
  prod_platform_stage :: platform

text \<open>
  The calls into the pipeline library. \<open>add_application_stage\<close> appends a stage holding
  the actions that the library declares to deploy the stacks of the given \<open>Platform\<close>;
  \<open>next_sequential_run_order\<close> is the first run order after those the stage uses;
  \<open>add_manual_approval_action\<close> adds the approval at the run order it is given.
\<close>

definition application_stage :: "library \<Rightarrow> platform \<Rightarrow> pipeline_stage" where
  "application_stage lib p =
     \<lparr>stage_name = stage_id p,
      stage_actions = deployment lib (stage_id p) (stage_stacks p)\<rparr>"

definition next_sequential_run_order :: "pipeline_stage \<Rightarrow> nat" where
  "next_sequential_run_order st = Suc (fold max (map snd (stage_actions st)) 0)"

definition add_manual_approval_action :: "string \<Rightarrow> nat \<Rightarrow> pipeline_stage \<Rightarrow> pipeline_stage" where
  "add_manual_approval_action nm ro st =
     st\<lparr>stage_actions := stage_actions st @ [(ManualApprovalAction nm, ro)]\<rparr>"

definition add_application_stage :: "pipeline_stage \<Rightarrow> cdk_pipeline \<Rightarrow> cdk_pipeline" where
  "add_application_stage st p = p\<lparr>application_stages := application_stages p @ [st]\<rparr>"

definition CDK_DEFAULT_ACCOUNT :: string where
  "CDK_DEFAULT_ACCOUNT = ''CDK_DEFAULT_ACCOUNT''"

definition CDK_DEFAULT_REGION :: string where
  "CDK_DEFAULT_REGION = ''CDK_DEFAULT_REGION''"

text \<open>
  \<open>cdk.Environment(account=os.environ[...], region=os.environ[...])\<close>: each lookup raises
  KeyError when the variable is not set.
\<close>

definition default_environment :: "(string \<rightharpoonup> string) \<Rightarrow> error + environment" where
  "default_environment environ =
     e_bind (subscript environ CDK_DEFAULT_ACCOUNT) (\<lambda>a.
     e_bind (subscript environ CDK_DEFAULT_REGION) (\<lambda>r.
       Inr \<lparr>account = a, region = r\<rparr>))"

text \<open>
  \<open>_add_pre_prod_stage\<close>: the stage object returned by \<open>add_application_stage\<close> is the one
  the pipeline holds, so the approval action added to it afterwards is part of the
  pipeline's stage.
\<close>

definition add_pre_prod_stage ::
  "(string \<Rightarrow> vpc) \<Rightarrow> library \<Rightarrow> nat \<Rightarrow> (string \<rightharpoonup> string) \<Rightarrow> cdk_pipeline \<Rightarrow>
     error + (cdk_pipeline \<times> platform \<times> nat)" where
  "add_pre_prod_stage network lib n environ p =
     e_bind (default_environment environ) (\<lambda>pre_prod_env.
     e_bind (Platform network lib n ''Platform-PreProd'' pre_prod_env None
               (Some (PyStr ''pre-prod'')) Map.empty) (\<lambda>(pre_prod_platform_stage, n').
       let pre_prod_stage = application_stage lib pre_prod_platform_stage;
           pre_prod_stage' =
             add_manual_approval_action ''ConfirmPreProdDeployment''
               (next_sequential_run_order pre_prod_stage) pre_prod_stage
       in Inr (add_application_stage pre_prod_stage' p, pre_prod_platform_stage, n')))"

text \<open>\<open>_add_prod_stage\<close>: the account of the process environment, the region fixed.\<close>

definition add_prod_stage ::
  "(string \<Rightarrow> vpc) \<Rightarrow> library \<Rightarrow> nat \<Rightarrow> (string \<rightharpoonup> string) \<Rightarrow> cdk_pipeline \<Rightarrow>
     error + (cdk_pipeline \<times> platform \<times> nat)" where
  "add_prod_stage network lib n environ p =
     e_bind (subscript environ CDK_DEFAULT_ACCOUNT) (\<lambda>a.
       let prod_env = \<lparr>account = a, region = ''eu-central-1''\<rparr>
       in e_bind (Platform network lib n ''Platform-Prod'' prod_env None None Map.empty)
            (\<lambda>(prod_platform_stage, n').
               Inr (add_application_stage (application_stage lib prod_platform_stage) p,
                    prod_platform_stage, n')))"

text \<open>
  \<open>Pipeline.__init__\<close>. The two artifacts are fresh objects, told apart by the order of
  their creation: the source action writes the first, the synthesis reads it and writes
  the second, and the pipeline deploys from the second. \<open>_get_cdk_cli_version\<close> reads
  \<open>package.json\<close>, a file outside the sources read here: its outcome (the version string,
  or the exception raised while reading) is the parameter \<open>cli\<close>.
\<close>

definition Pipeline ::
  "(string \<Rightarrow> vpc) \<Rightarrow> library \<Rightarrow> nat \<Rightarrow> (string \<rightharpoonup> string) \<Rightarrow> error + string \<Rightarrow>
     string \<Rightarrow> environment \<Rightarrow> error + (pipeline \<times> nat)" where
  "Pipeline network lib n environ cli i e =
     (let source_artifact = Artifact 0;
          cloud_assembly = Artifact 1;
          source = GitHubSourceAction ''GitHub'' source_artifact ''github-token''
                     ''github-user'' ''eks-platform'' ''main'';
          synth = SimpleSynthAction source_artifact cloud_assembly
                    [''pyenv local 3.7.10'', ''./scripts/install-deps.sh''] ''npx cdk synth''
      in e_bind cli (\<lambda>ver.
           let p0 = \<lparr>pipeline_id = ''EKSPlatform'', source_action = source,
                     synth_action = synth, single_publisher_per_type = True,
                     cdk_cli_version = ver, cloud_assembly_artifact = cloud_assembly,
                     application_stages = []\<rparr>
           in e_bind (add_pre_prod_stage network lib n environ p0) (\<lambda>(p1, pre, n1).
              e_bind (add_prod_stage network lib n1 environ p1) (\<lambda>(p2, prod, n2).
                Inr (\<lparr>stack_id = i, stack_env = e, engine = p2,
                      pre_prod_platform_stage = pre, prod_platform_stage = prod\<rparr>, n2)))))"

section \<open>app.py\<close>

record app =
  dev_platform :: platform
  app_pipeline :: pipeline

text \<open>
  The script: two environments from the process environment, the development stage, the
  pipeline. Its inputs are the process environment, the outcome of reading the CLI
  version, the declared networks and the answers of the libraries.
\<close>

definition synth ::
  "(string \<Rightarrow> vpc) \<Rightarrow> library \<Rightarrow> (string \<rightharpoonup> string) \<Rightarrow> error + string \<Rightarrow>
     error + app" where
  "synth network lib environ cli =
     e_bind (default_environment environ) (\<lambda>dev_env.
     e_bind (default_environment environ) (\<lambda>pipeline_env.
     e_bind (Platform network lib 0 ''Platform-Dev'' dev_env None (Some (PyStr ''dev''))
               [''cluster_name'' \<mapsto> PyStr ''eks-test'']) (\<lambda>(dev, n1).
     e_bind (Pipeline network lib n1 environ cli ''Platform-Pipeline'' pipeline_env)
       (\<lambda>(pl, n2). Inr \<lparr>dev_platform = dev, app_pipeline = pl\<rparr>))))"

section \<open>Reading a produced configuration\<close>

text \<open>
  The value a flag has after \<open>_extract_flags_from_kwargs\<close>: the keyword argument when it
  is supplied, \<open>True\<close> otherwise.
\<close>

definition flag_value :: "kwargs \<Rightarrow> string \<Rightarrow> pyval" where
  "flag_value kw f = (case kw f of None \<Rightarrow> PyBool True | Some v \<Rightarrow> v)"

text \<open>
  What a run declares, apart from the attributes that only record its inputs: the
  administrative role, the control-plane security group, the cluster with its node groups,
  the node-group roles and the add-on constructs.
\<close>

definition configuration ::
  "platform_eks \<Rightarrow> role \<times> security_group \<times> cluster \<times> role list \<times> construct list" where
  "configuration s =
     (cluster_admin_role s, eks_security_group s, eks_cluster s, nodegroup_roles s, addons s)"

definition declared :: "platform_eks \<Rightarrow> cref \<Rightarrow> bool" where
  "declared s r = (r \<in> set (map cref_of (addons s)))"

definition construct_of :: "platform_eks \<Rightarrow> cref \<Rightarrow> construct option" where
  "construct_of s r = find (\<lambda>c. cref_of c = r) (addons s)"

text \<open>\<open>depends_on s r d\<close>: the construct \<open>r\<close> is declared with a dependency on \<open>d\<close>.\<close>

definition depends_on :: "platform_eks \<Rightarrow> cref \<Rightarrow> cref \<Rightarrow> bool" where
  "depends_on s r d =
     (case construct_of s r of None \<Rightarrow> False | Some c \<Rightarrow> d \<in> set (dependencies c))"

text \<open>The outline of the add-ons: each construct's reference and dependencies, in order.\<close>

definition outline :: "platform_eks \<Rightarrow> (cref \<times> cref list) list" where
  "outline s = map (\<lambda>c. (cref_of c, dependencies c)) (addons s)"

definition agent_ref :: cref where
  "agent_ref = (Manifest, ''SSMAgentManifest'')"

definition bastion_ref :: cref where
  "bastion_ref = (Instance, ''EKSBastion'')"

definition autoscaler_sa_ref :: cref where
  "autoscaler_sa_ref = (ServiceAccount, ''cluster_autoscaler'')"

definition autoscaler_config_map_ref :: cref where
  "autoscaler_config_map_ref = (Manifest, ''CAPriorityExpanderConfigMap'')"

definition autoscaler_chart_ref :: cref where
  "autoscaler_chart_ref = (Chart, ''cluster-autoscaler'')"

definition lb_controller_sa_ref :: cref where
  "lb_controller_sa_ref = (ServiceAccount, ''aws-load-balancer-controller'')"

definition lb_controller_chart_ref :: cref where
  "lb_controller_chart_ref = (Chart, ''aws-load-balancer-controller'')"

definition core_outline :: "(cref \<times> cref list) list" where
  "core_outline =
     [(agent_ref, []),
      ((InstanceProfile, ''ClusterAdminRoleInstanceProfile''), [(Role, ''ClusterAdminRole'')]),
      ((SecurityGroup, ''BastionSecurityGroup''), []),
      (bastion_ref, [agent_ref]),
      ((Output, ''BastionAddress''), [])]"

definition autoscaler_outline :: "(cref \<times> cref list) list" where
  "autoscaler_outline =
     [(autoscaler_sa_ref, []), (autoscaler_config_map_ref, []),
      (autoscaler_chart_ref, [agent_ref])]"

definition lb_controller_outline :: "(cref \<times> cref list) list" where
  "lb_controller_outline =
     [(lb_controller_sa_ref, []), (lb_controller_chart_ref, [lb_controller_sa_ref])]"

text \<open>
  \<open>_deploy_addons\<close> once its two tests are decided: \<open>a\<close> and \<open>b\<close> stand for the outcomes
  of \<open>flags[...] is True\<close>.
\<close>

definition addons_plan ::
  "bool \<Rightarrow> bool \<Rightarrow> library \<Rightarrow> nat \<Rightarrow> platform_eks \<Rightarrow>
     error + (platform_eks \<times> nat)" where
  "addons_plan a b lib n s =
     e_bind (deploy_bastion (deploy_ssm_agent s)) (\<lambda>s2.
     e_bind (if a then deploy_cluster_autoscaler s2 else Inr s2) (\<lambda>s3.
       if b then deploy_aws_load_balancer_controller lib n s3 else Inr (s3, n)))"

subsection \<open>The priority-expander document\<close>

text \<open>
  The ConfigMap's \<open>priorities\<close> entry is a YAML document that the autoscaler's priority
  expander reads: a mapping from a priority (an integer key at the start of a line) to a
  list of node-group patterns (the \<open>-\<close> items below the key). The expander picks the
  matching class with the highest number. The reader below covers the part of YAML the
  document uses; an item with no text is read as the empty pattern.
\<close>

fun split_lines :: "string \<Rightarrow> string list" where
  "split_lines [] = [[]]"
| "split_lines (c # cs) =
     (if c = CHR 0x0A then [] # split_lines cs
      else (case split_lines cs of [] \<Rightarrow> [[c]] | l # ls \<Rightarrow> (c # l) # ls))"

definition is_digit :: "char \<Rightarrow> bool" where
  "is_digit c = (48 \<le> (of_char c :: nat) \<and> (of_char c :: nat) \<le> 57)"

fun nat_of_digits :: "nat \<Rightarrow> string \<Rightarrow> nat" where
  "nat_of_digits acc [] = acc"
| "nat_of_digits acc (c # cs) = nat_of_digits (10 * acc + (of_char c - 48)) cs"

fun item_of :: "string \<Rightarrow> string option" where
  "item_of (a # b # c # rest) =
     (if a = CHR '' '' \<and> b = CHR '' '' \<and> c = CHR ''-''
      then Some (dropWhile (\<lambda>x. x = CHR '' '') rest) else None)"
| "item_of _ = None"

definition key_of :: "string \<Rightarrow> nat option" where
  "key_of l =
     (let ds = takeWhile is_digit l; rest = dropWhile is_digit l
      in if ds \<noteq> [] \<and> take 1 rest = '':'' then Some (nat_of_digits 0 ds) else None)"

fun parse_step ::
  "string \<Rightarrow> string list \<times> (nat \<times> string list) list \<Rightarrow>
     string list \<times> (nat \<times> string list) list" where
  "parse_step l (pending, classes) =
     (case item_of l of
        Some pat \<Rightarrow> (pat # pending, classes)
      | None \<Rightarrow> (case key_of l of
                   Some k \<Rightarrow> ([], (k, pending) # classes)
                 | None \<Rightarrow> (pending, classes)))"

definition parse_priorities :: "string \<Rightarrow> (nat \<times> string list) list" where
  "parse_priorities doc = snd (foldr parse_step (split_lines doc) ([], []))"

definition priority_of :: "string \<Rightarrow> (nat \<times> string list) list \<Rightarrow> nat option" where
  "priority_of pat classes = map_option fst (find (\<lambda>kc. pat \<in> set (snd kc)) classes)"

text \<open>The \<open>priorities\<close> document of the ConfigMap a configuration declares, if any.\<close>

fun manifest_body :: "resource \<Rightarrow> json option" where
  "manifest_body (KubernetesManifest j) = Some j"
| "manifest_body _ = None"

fun json_string :: "json \<Rightarrow> string option" where
  "json_string (JStr x) = Some x"
| "json_string _ = None"

definition expander_document :: "platform_eks \<Rightarrow> string option" where
  "expander_document s =
     Option.bind (construct_of s autoscaler_config_map_ref) (\<lambda>c.
     Option.bind (manifest_body (payload c)) (\<lambda>j.
     Option.bind (jget ''data'' j) (\<lambda>d.
     Option.bind (jget ''priorities'' d) json_string)))"

definition expander_priority :: "platform_eks \<Rightarrow> string \<Rightarrow> nat option" where
  "expander_priority s pat =
     Option.bind (expander_document s) (\<lambda>doc. priority_of pat (parse_priorities doc))"

subsection \<open>Concrete inputs\<close>

definition example_policy :: json where
  "example_policy =
     JObj [(''Version'', JStr ''2012-10-17''),
           (''Statement'',
              JArr [JObj [(''Effect'', JStr ''Allow''),
                          (''Action'', JArr [JStr ''elasticloadbalancing:DescribeLoadBalancers'']),
                          (''Resource'', JStr ''*'')]])]"

text \<open>
  A library for the concrete runs: every request is answered with the example document,
  a statement is accepted when it names an action, and a stage is deployed by preparing
  and then executing a change set for each stack in turn.
\<close>

definition example_from_json :: "json \<Rightarrow> error + json" where
  "example_from_json j =
     (case jget ''Action'' j of
        Some a \<Rightarrow> Inr j
      | None \<Rightarrow> (case jget ''NotAction'' j of Some a \<Rightarrow> Inr j | None \<Rightarrow> Inl JsiiError))"

fun prepare_and_deploy :: "string \<Rightarrow> string list \<Rightarrow> nat \<Rightarrow> (action \<times> nat) list" where
  "prepare_and_deploy sid [] k = []"
| "prepare_and_deploy sid (st # sts) k =
     (PrepareAction sid st, k) # (DeployAction sid st, Suc k)
       # prepare_and_deploy sid sts (Suc (Suc k))"

definition example_library :: library where
  "example_library =
     \<lparr>requests_get = (\<lambda>k. Inr example_policy),
      from_json = example_from_json,
      deployment = (\<lambda>sid stacks. prepare_and_deploy sid stacks 1)\<rparr>"

definition example_vpc :: vpc where
  "example_vpc = \<lparr>vpc_id = ''vpc-0a1b2c'', vpc_cidr_block = ''10.0.0.0/16''\<rparr>"

definition example_network :: "string \<Rightarrow> vpc" where
  "example_network i = example_vpc"

definition example_env :: environment where
  "example_env = \<lparr>account = ''111122223333'', region = ''eu-west-1''\<rparr>"

definition example_environ :: "string \<rightharpoonup> string" where
  "example_environ =
     [CDK_DEFAULT_ACCOUNT \<mapsto> ''111122223333'', CDK_DEFAULT_REGION \<mapsto> ''eu-west-1'']"

definition frankfurt_environ :: "string \<rightharpoonup> string" where
  "frankfurt_environ =
     [CDK_DEFAULT_ACCOUNT \<mapsto> ''111122223333'', CDK_DEFAULT_REGION \<mapsto> ''eu-central-1'']"

section \<open>Lemmas about the cluster builder\<close>

subsection \<open>Results and lookups\<close>

lemma e_bind_Inr: "e_bind m f = Inr y \<longleftrightarrow> (\<exists>x. m = Inr x \<and> f x = Inr y)"
  by (cases m) (simp_all add: e_bind_def)

lemma e_bind_simps [simp]: "e_bind (Inr x) f = f x" "e_bind (Inl e) f = Inl e"
  by (simp_all add: e_bind_def)

lemma add_str_Inr: "add_str v s = Inr r \<longleftrightarrow> (\<exists>a. v = PyStr a \<and> r = a @ s)"
  by (cases v) auto

lemma str_add_Inr: "str_add s v = Inr r \<longleftrightarrow> (\<exists>b. v = PyStr b \<and> r = s @ b)"
  by (cases v) auto

lemma subscript_Inr: "subscript d k = Inr v \<longleftrightarrow> d k = Some v"
  by (simp add: subscript_def split: option.splits)

subsection \<open>Flags and parameters\<close>

lemma flags_autoscaler:
  "extract_flags_from_kwargs kw DEPLOY_CLUSTER_AUTOSCALER =
     Some (flag_value kw DEPLOY_CLUSTER_AUTOSCALER)"
  by (simp add: extract_flags_from_kwargs_def flags_names_def DEPLOY_CLUSTER_AUTOSCALER_def
        DEPLOY_AWS_LB_CONTROLLER_def flag_value_def split: option.splits)

lemma flags_lb:
  "extract_flags_from_kwargs kw DEPLOY_AWS_LB_CONTROLLER =
     Some (flag_value kw DEPLOY_AWS_LB_CONTROLLER)"
  by (simp add: extract_flags_from_kwargs_def flags_names_def DEPLOY_CLUSTER_AUTOSCALER_def
        DEPLOY_AWS_LB_CONTROLLER_def flag_value_def split: option.splits)

lemma params_cluster_name:
  "extract_params_from_kwargs kw CLUSTER_NAME =
     Some (case kw CLUSTER_NAME of None \<Rightarrow> PyStr CLUSTER_NAME | Some v \<Rightarrow> v)"
  by (simp add: extract_params_from_kwargs_def params_names_def CLUSTER_NAME_def
        ENV_def split: option.splits)

lemma params_env:
  "extract_params_from_kwargs kw ENV =
     Some (case kw ENV of None \<Rightarrow> PyStr ENV | Some v \<Rightarrow> v)"
  by (simp add: extract_params_from_kwargs_def params_names_def CLUSTER_NAME_def
        ENV_def split: option.splits)

lemma params_cong:
  "kw1 CLUSTER_NAME = kw2 CLUSTER_NAME \<Longrightarrow> kw1 ENV = kw2 ENV \<Longrightarrow>
     extract_params_from_kwargs kw1 = extract_params_from_kwargs kw2"
  by (simp add: extract_params_from_kwargs_def params_names_def)

subsection \<open>The cluster\<close>

lemma create_eks_Inr:
  "create_eks ps v = Inr (admin, sg, cl) \<Longrightarrow>
     \<exists>a b. ps CLUSTER_NAME = Some (PyStr a) \<and> ps ENV = Some (PyStr b)
       \<and> cluster_name cl = a @ ''-'' @ b \<and> default_capacity cl = 0 \<and> nodegroups cl = []
       \<and> role_id admin = ''ClusterAdminRole''"
  by (auto simp: create_eks_def e_bind_Inr subscript_Inr add_str_Inr str_add_Inr Let_def)

lemma create_eks_ok:
  "ps CLUSTER_NAME = Some (PyStr a) \<Longrightarrow> ps ENV = Some (PyStr b) \<Longrightarrow>
     \<exists>admin sg cl. create_eks ps v = Inr (admin, sg, cl)"
  by (simp add: create_eks_def subscript_def Let_def)

subsection \<open>What each step leaves unchanged\<close>

lemma create_nodegroups_frame:
  "flags (create_nodegroups s) = flags s"
  "ssm_agent_manifest (create_nodegroups s) = ssm_agent_manifest s"
  "addons (create_nodegroups s) = addons s"
  "cluster_admin_role (create_nodegroups s) = cluster_admin_role s"
  "params (create_nodegroups s) = params s"
  "cluster_name (eks_cluster (create_nodegroups s)) = cluster_name (eks_cluster s)"
  "default_capacity (eks_cluster (create_nodegroups s)) = default_capacity (eks_cluster s)"
  "nodegroups (eks_cluster (create_nodegroups s)) =
     nodegroups (eks_cluster s) @ [od_default_nodegroup, spot_default_nodegroup, od_graviton_nodegroup]"
  by (simp_all add: create_nodegroups_def add_nodegroup_capacity_def)

lemma deploy_ssm_agent_frame:
  "flags (deploy_ssm_agent s) = flags s"
  "ssm_agent_manifest (deploy_ssm_agent s) = Some agent_ref"
  "cluster_admin_role (deploy_ssm_agent s) = cluster_admin_role s"
  "params (deploy_ssm_agent s) = params s"
  "eks_cluster (deploy_ssm_agent s) = eks_cluster s"
  "outline (deploy_ssm_agent s) = outline s @ [(agent_ref, [])]"
  by (simp_all add: deploy_ssm_agent_def agent_ref_def outline_def cref_of_def)

lemma deploy_bastion_Inr:
  assumes "deploy_bastion s = Inr s'"
  shows "flags s' = flags s" "ssm_agent_manifest s' = ssm_agent_manifest s"
    "params s' = params s"
    "nodegroups (eks_cluster s') = nodegroups (eks_cluster s)"
    "cluster_name (eks_cluster s') = cluster_name (eks_cluster s)"
    "default_capacity (eks_cluster s') = default_capacity (eks_cluster s)"
    "\<exists>m. ssm_agent_manifest s = Some m \<and> outline s' = outline s @
       [((InstanceProfile, ''ClusterAdminRoleInstanceProfile''),
           [(Role, role_id (cluster_admin_role s))]),
        ((SecurityGroup, ''BastionSecurityGroup''), []),
        (bastion_ref, [m]),
        ((Output, ''BastionAddress''), [])]"
  using assms
  by (auto simp: deploy_bastion_def Let_def outline_def cref_of_def bastion_ref_def
      split: option.splits)

lemma deploy_cluster_autoscaler_Inr:
  assumes "deploy_cluster_autoscaler s = Inr s'"
  shows "flags s' = flags s" "ssm_agent_manifest s' = ssm_agent_manifest s"
    "params s' = params s" "eks_cluster s' = eks_cluster s"
    "\<exists>m. ssm_agent_manifest s = Some m \<and> outline s' = outline s @
       [(autoscaler_sa_ref, []), (autoscaler_config_map_ref, []), (autoscaler_chart_ref, [m])]"
  using assms
  by (auto simp: deploy_cluster_autoscaler_def Let_def outline_def cref_of_def
      autoscaler_sa_ref_def autoscaler_config_map_ref_def autoscaler_chart_ref_def
      split: option.splits)

lemma deploy_lb_Inr:
  assumes "deploy_aws_load_balancer_controller lib n s = Inr (s', n')"
  shows "flags s' = flags s" "params s' = params s" "eks_cluster s' = eks_cluster s"
    "n' = Suc n" "outline s' = outline s @ lb_controller_outline"
  using assms
  by (auto simp: deploy_aws_load_balancer_controller_def Let_def e_bind_Inr outline_def
      cref_of_def lb_controller_outline_def lb_controller_sa_ref_def
      lb_controller_chart_ref_def AWS_LB_CONTROLLER_def)

subsection \<open>The add-ons, with the tests on the flags decided\<close>

lemma deploy_addons_plan:
  assumes "flags s DEPLOY_CLUSTER_AUTOSCALER = Some f1"
    and "flags s DEPLOY_AWS_LB_CONTROLLER = Some f2"
  shows "deploy_addons lib n s = addons_plan (is_True f1) (is_True f2) lib n s"
proof (cases "deploy_bastion (deploy_ssm_agent s)")
  case (Inl e)
  then show ?thesis by (simp add: deploy_addons_def addons_plan_def)
next
  case (Inr s2)
  have fl2: "flags s2 = flags s"
    using deploy_bastion_Inr(1) [OF Inr] by (simp add: deploy_ssm_agent_frame)
  show ?thesis
  proof (cases "if is_True f1 then deploy_cluster_autoscaler s2 else Inr s2")
    case (Inl e)
    then show ?thesis
      using Inr fl2 assms by (simp add: deploy_addons_def addons_plan_def subscript_def)
  next
    case Inr3: (Inr s3)
    have "flags s3 = flags s2"
      using Inr3 by (auto dest: deploy_cluster_autoscaler_Inr(1) split: if_splits)
    then show ?thesis
      using Inr Inr3 fl2 assms by (simp add: deploy_addons_def addons_plan_def subscript_def)
  qed
qed

lemma PlatformEKS_plan:
  "PlatformEKS lib n v e kw =
     e_bind (create_eks (extract_params_from_kwargs kw) v) (\<lambda>(admin, sg, cl).
       addons_plan (is_True (flag_value kw DEPLOY_CLUSTER_AUTOSCALER))
         (is_True (flag_value kw DEPLOY_AWS_LB_CONTROLLER)) lib n
         (create_nodegroups
            \<lparr>flags = extract_flags_from_kwargs kw, params = extract_params_from_kwargs kw,
             env = e, eks_vpc = v, cluster_admin_role = admin, eks_security_group = sg,
             eks_cluster = cl, nodegroup_roles = [], ssm_agent_manifest = None,
             bastion = None, addons = []\<rparr>))"
proof (cases "create_eks (extract_params_from_kwargs kw) v")
  case (Inl e)
  then show ?thesis by (simp add: PlatformEKS_def)
next
  case (Inr t)
  obtain admin sg cl where t: "t = (admin, sg, cl)" by (cases t) auto
  show ?thesis
    using Inr unfolding t PlatformEKS_def Let_def
    by (simp add: deploy_addons_plan [OF _ _] create_nodegroups_frame flags_autoscaler flags_lb)
qed

subsection \<open>What a successful run declares\<close>

lemma addons_plan_Inr:
  assumes "addons_plan a b lib n s = Inr (s', n')"
  shows "\<exists>s2 s3. deploy_bastion (deploy_ssm_agent s) = Inr s2
           \<and> (if a then deploy_cluster_autoscaler s2 else Inr s2) = Inr s3
           \<and> (if b then deploy_aws_load_balancer_controller lib n s3 else Inr (s3, n))
                = Inr (s', n')"
  using assms unfolding addons_plan_def e_bind_Inr by blast

lemma addons_plan_outline:
  assumes "addons_plan a b lib n s = Inr (s', n')"
    and "role_id (cluster_admin_role s) = ''ClusterAdminRole''"
  shows "outline s' = outline s @ core_outline
           @ (if a then autoscaler_outline else [])
           @ (if b then lb_controller_outline else [])"
proof -
  from addons_plan_Inr [OF assms(1)] obtain s2 s3 where
    b: "deploy_bastion (deploy_ssm_agent s) = Inr s2" and
    c: "(if a then deploy_cluster_autoscaler s2 else Inr s2) = Inr s3" and
    d: "(if b then deploy_aws_load_balancer_controller lib n s3 else Inr (s3, n))
          = Inr (s', n')"
    by blast
  have o2: "outline s2 = outline s @ core_outline"
    using deploy_bastion_Inr(7) [OF b] assms(2)
    by (auto simp: deploy_ssm_agent_frame core_outline_def)
  have m2: "ssm_agent_manifest s2 = Some agent_ref"
    using deploy_bastion_Inr(2) [OF b] by (simp add: deploy_ssm_agent_frame)
  have o3: "outline s3 = outline s2 @ (if a then autoscaler_outline else [])"
    using c m2 by (auto dest: deploy_cluster_autoscaler_Inr(5) simp: autoscaler_outline_def
        split: if_splits)
  have o4: "outline s' = outline s3 @ (if b then lb_controller_outline else [])"
    using d by (auto dest: deploy_lb_Inr(5) split: if_splits)
  show ?thesis by (simp add: o2 o3 o4)
qed

lemma addons_plan_frame:
  assumes "addons_plan a b lib n s = Inr (s', n')"
  shows "flags s' = flags s" "params s' = params s"
    "nodegroups (eks_cluster s') = nodegroups (eks_cluster s)"
    "cluster_name (eks_cluster s') = cluster_name (eks_cluster s)"
    "default_capacity (eks_cluster s') = default_capacity (eks_cluster s)"
    "n' = (if b then Suc n else n)"
proof -
  from addons_plan_Inr [OF assms(1)] obtain s2 s3 where
    b: "deploy_bastion (deploy_ssm_agent s) = Inr s2" and
    c: "(if a then deploy_cluster_autoscaler s2 else Inr s2) = Inr s3" and
    d: "(if b then deploy_aws_load_balancer_controller lib n s3 else Inr (s3, n))
          = Inr (s', n')"
    by blast
  note b' = deploy_bastion_Inr [OF b]
  have c': "flags s3 = flags s2" "params s3 = params s2" "eks_cluster s3 = eks_cluster s2"
    using c by (auto dest: deploy_cluster_autoscaler_Inr split: if_splits)
  have d': "flags s' = flags s3" "params s' = params s3" "eks_cluster s' = eks_cluster s3"
    "n' = (if b then Suc n else n)"
    using d by (auto dest: deploy_lb_Inr split: if_splits)
  show "flags s' = flags s" "params s' = params s"
    "nodegroups (eks_cluster s') = nodegroups (eks_cluster s)"
    "cluster_name (eks_cluster s') = cluster_name (eks_cluster s)"
    "default_capacity (eks_cluster s') = default_capacity (eks_cluster s)"
    "n' = (if b then Suc n else n)"
    using b' c' d' by (simp_all add: deploy_ssm_agent_frame)
qed

lemma PlatformEKS_Inr:
  assumes "PlatformEKS lib n v e kw = Inr (s, n')"
  shows "outline s = core_outline
           @ (if is_True (flag_value kw DEPLOY_CLUSTER_AUTOSCALER) then autoscaler_outline else [])
           @ (if is_True (flag_value kw DEPLOY_AWS_LB_CONTROLLER) then lb_controller_outline else [])"
    and "flags s = extract_flags_from_kwargs kw"
    and "params s = extract_params_from_kwargs kw"
    and "\<exists>a b. params s CLUSTER_NAME = Some (PyStr a) \<and> params s ENV = Some (PyStr b)
           \<and> cluster_name (eks_cluster s) = a @ ''-'' @ b"
    and "default_capacity (eks_cluster s) = 0"
    and "nodegroups (eks_cluster s) =
           [od_default_nodegroup, spot_default_nodegroup, od_graviton_nodegroup]"
    and "n' = (if is_True (flag_value kw DEPLOY_AWS_LB_CONTROLLER) then Suc n else n)"
proof -
  let ?A = "is_True (flag_value kw DEPLOY_CLUSTER_AUTOSCALER)"
  let ?B = "is_True (flag_value kw DEPLOY_AWS_LB_CONTROLLER)"
  let ?ps = "extract_params_from_kwargs kw"
  from assms obtain admin sg cl where
    ce: "create_eks ?ps v = Inr (admin, sg, cl)" and
    ap: "addons_plan ?A ?B lib n
           (create_nodegroups
              \<lparr>flags = extract_flags_from_kwargs kw, params = ?ps,
               env = e, eks_vpc = v, cluster_admin_role = admin, eks_security_group = sg,
               eks_cluster = cl, nodegroup_roles = [], ssm_agent_manifest = None,
               bastion = None, addons = []\<rparr>) = Inr (s, n')"
      (is "addons_plan _ _ _ _ ?s1 = _")
    unfolding PlatformEKS_plan e_bind_Inr by auto
  note ce' = create_eks_Inr [OF ce]
  have r: "role_id (cluster_admin_role ?s1) = ''ClusterAdminRole''"
    using ce' by (auto simp: create_nodegroups_frame)
  have o1: "outline ?s1 = []"
    by (simp add: outline_def create_nodegroups_frame)
  note fr = addons_plan_frame [OF ap]
  show "outline s = core_outline @ (if ?A then autoscaler_outline else [])
           @ (if ?B then lb_controller_outline else [])"
    using addons_plan_outline [OF ap r] o1 by simp
  show "flags s = extract_flags_from_kwargs kw"
    using fr(1) by (simp add: create_nodegroups_frame)
  show p: "params s = ?ps"
    using fr(2) by (simp add: create_nodegroups_frame)
  show "\<exists>a b. params s CLUSTER_NAME = Some (PyStr a) \<and> params s ENV = Some (PyStr b)
           \<and> cluster_name (eks_cluster s) = a @ ''-'' @ b"
    using ce' fr(4) p by (auto simp: create_nodegroups_frame)
  show "default_capacity (eks_cluster s) = 0"
    using ce' fr(5) by (auto simp: create_nodegroups_frame)
  show "nodegroups (eks_cluster s) =
           [od_default_nodegroup, spot_default_nodegroup, od_graviton_nodegroup]"
    using ce' fr(3) by (auto simp: create_nodegroups_frame)
  show "n' = (if ?B then Suc n else n)"
    using fr(6) .
qed

subsection \<open>When the cluster builder returns\<close>

lemma deploy_bastion_ok:
  "ssm_agent_manifest s = Some m \<Longrightarrow> \<exists>s'. deploy_bastion s = Inr s'"
  by (simp add: deploy_bastion_def Let_def)

lemma deploy_cluster_autoscaler_ok:
  "ssm_agent_manifest s = Some m \<Longrightarrow> \<exists>s'. deploy_cluster_autoscaler s = Inr s'"
  by (simp add: deploy_cluster_autoscaler_def Let_def)

lemma deploy_lb_ok:
  "fetch_policy_statements lib n = Inr stmts \<Longrightarrow>
     \<exists>s'. deploy_aws_load_balancer_controller lib n s = Inr (s', Suc n)"
  by (simp add: deploy_aws_load_balancer_controller_def Let_def)

lemma addons_plan_ok:
  assumes "b \<longrightarrow> (\<exists>stmts. fetch_policy_statements lib n = Inr stmts)"
  shows "\<exists>s' n'. addons_plan a b lib n s = Inr (s', n')"
proof -
  obtain s2 where b: "deploy_bastion (deploy_ssm_agent s) = Inr s2"
    using deploy_bastion_ok [of "deploy_ssm_agent s"] by (auto simp: deploy_ssm_agent_frame)
  have m2: "ssm_agent_manifest s2 = Some agent_ref"
    using deploy_bastion_Inr(2) [OF b] by (simp add: deploy_ssm_agent_frame)
  obtain s3 where c: "(if a then deploy_cluster_autoscaler s2 else Inr s2) = Inr s3"
    using deploy_cluster_autoscaler_ok [OF m2] by (cases a) auto
  have "\<exists>s4 n4.
    (if b then deploy_aws_load_balancer_controller lib n s3 else Inr (s3, n)) = Inr (s4, n4)"
  proof (cases b)
    case True
    with assms obtain stmts where ds: "fetch_policy_statements lib n = Inr stmts"
      by blast
    from deploy_lb_ok [where lib = lib and n = n and stmts = stmts and s = s3, OF ds] True
    show ?thesis by auto
  next
    case False
    then show ?thesis by simp
  qed
  then show ?thesis
    using b c by (auto simp: addons_plan_def)
qed

lemma PlatformEKS_ok:
  assumes "extract_params_from_kwargs kw CLUSTER_NAME = Some (PyStr a)"
    and "extract_params_from_kwargs kw ENV = Some (PyStr b)"
    and "is_True (flag_value kw DEPLOY_AWS_LB_CONTROLLER) \<longrightarrow>
           (\<exists>stmts. fetch_policy_statements lib n = Inr stmts)"
  shows "\<exists>s n'. PlatformEKS lib n v e kw = Inr (s, n')"
proof -
  obtain admin sg cl where
    ce: "create_eks (extract_params_from_kwargs kw) v = Inr (admin, sg, cl)"
    using create_eks_ok [OF assms(1,2)] by blast
  show ?thesis
    unfolding PlatformEKS_plan
    using ce assms(3)
      addons_plan_ok [of "is_True (flag_value kw DEPLOY_AWS_LB_CONTROLLER)" lib n]
    by simp
qed

subsection \<open>Reading constructs through the outline\<close>

lemma find_append_first:
  "find P (xs @ ys) = (case find P xs of None \<Rightarrow> find P ys | Some x \<Rightarrow> Some x)"
  by (induction xs) auto

lemma find_outline:
  "map_option (\<lambda>c. (cref_of c, dependencies c)) (find (\<lambda>c. cref_of c = r) xs) =
     find (\<lambda>p. fst p = r) (map (\<lambda>c. (cref_of c, dependencies c)) xs)"
  by (induction xs) auto

lemma declared_outline: "declared s r \<longleftrightarrow> r \<in> set (map fst (outline s))"
  by (simp add: declared_def outline_def comp_def)

lemma depends_on_outline:
  "depends_on s r d =
     (case find (\<lambda>p. fst p = r) (outline s) of None \<Rightarrow> False | Some p \<Rightarrow> d \<in> set (snd p))"
proof -
  have "find (\<lambda>p. fst p = r) (outline s) =
          map_option (\<lambda>c. (cref_of c, dependencies c)) (construct_of s r)"
    by (simp add: construct_of_def outline_def find_outline)
  then show ?thesis
    by (cases "construct_of s r") (simp_all add: depends_on_def)
qed

lemma construct_of_None: "construct_of s r = None \<longleftrightarrow> r \<notin> set (map fst (outline s))"
  by (auto simp: construct_of_def outline_def find_None_iff)

lemmas ref_defs = agent_ref_def bastion_ref_def autoscaler_sa_ref_def
  autoscaler_config_map_ref_def autoscaler_chart_ref_def lb_controller_sa_ref_def
  lb_controller_chart_ref_def

lemmas outline_defs = core_outline_def autoscaler_outline_def lb_controller_outline_def

lemma outline_refs:
  "map fst (core_outline @ (if a then autoscaler_outline else [])
      @ (if b then lb_controller_outline else [])) =
   [agent_ref, (InstanceProfile, ''ClusterAdminRoleInstanceProfile''),
    (SecurityGroup, ''BastionSecurityGroup''), bastion_ref, (Output, ''BastionAddress'')]
   @ (if a then [autoscaler_sa_ref, autoscaler_config_map_ref, autoscaler_chart_ref] else [])
   @ (if b then [lb_controller_sa_ref, lb_controller_chart_ref] else [])"
  by (simp add: outline_defs)

subsection \<open>The priority-expander document of a run\<close>

lemma split_lines_expander:
  "split_lines expander_priorities = [''10: '', ''  - '', ''  - od*'', ''20: '', ''  - spot*'']"
  by (simp add: expander_priorities_def NL_def)

lemma parse_priorities_expander:
  "parse_priorities expander_priorities = [(10, ['''', ''od*'']), (20, [''spot*''])]"
  by (simp add: parse_priorities_def split_lines_expander key_of_def is_digit_def)

lemma deploy_cluster_autoscaler_document:
  assumes "deploy_cluster_autoscaler s = Inr s'"
    and "construct_of s autoscaler_config_map_ref = None"
  shows "expander_document s' = Some expander_priorities"
  using assms
  by (auto simp: deploy_cluster_autoscaler_def Let_def construct_of_def expander_document_def
      find_append_first cref_of_def ref_defs ca_priority_expander_config_map_def
      split: option.splits)

lemma deploy_lb_document:
  assumes "deploy_aws_load_balancer_controller lib n s = Inr (s', n')"
    and "expander_document s = Some d"
  shows "expander_document s' = Some d"
proof -
  from assms(2) obtain c where c: "construct_of s autoscaler_config_map_ref = Some c"
    by (cases "construct_of s autoscaler_config_map_ref") (auto simp: expander_document_def)
  from assms(1) obtain more where "addons s' = addons s @ more"
    by (auto simp: deploy_aws_load_balancer_controller_def e_bind_Inr Let_def)
  with c have "construct_of s' autoscaler_config_map_ref = Some c"
    by (simp add: construct_of_def find_append_first)
  with c assms(2) show ?thesis by (simp add: expander_document_def)
qed

lemma PlatformEKS_document:
  assumes "PlatformEKS lib n v e kw = Inr (s, n')"
    and "is_True (flag_value kw DEPLOY_CLUSTER_AUTOSCALER)"
  shows "expander_document s = Some expander_priorities"
proof -
  let ?B = "is_True (flag_value kw DEPLOY_AWS_LB_CONTROLLER)"
  from assms obtain admin sg cl where
    ce: "create_eks (extract_params_from_kwargs kw) v = Inr (admin, sg, cl)" and
    ap: "addons_plan True ?B lib n
           (create_nodegroups
              \<lparr>flags = extract_flags_from_kwargs kw, params = extract_params_from_kwargs kw,
               env = e, eks_vpc = v, cluster_admin_role = admin, eks_security_group = sg,
               eks_cluster = cl, nodegroup_roles = [], ssm_agent_manifest = None,
               bastion = None, addons = []\<rparr>) = Inr (s, n')"
      (is "addons_plan _ _ _ _ ?s1 = _")
    unfolding PlatformEKS_plan e_bind_Inr by auto
  from addons_plan_Inr [OF ap] obtain s2 s3 where
    b: "deploy_bastion (deploy_ssm_agent ?s1) = Inr s2" and
    c: "deploy_cluster_autoscaler s2 = Inr s3" and
    d: "(if ?B then deploy_aws_load_balancer_controller lib n s3 else Inr (s3, n))
          = Inr (s, n')"
    by auto
  have "role_id (cluster_admin_role ?s1) = ''ClusterAdminRole''"
    using create_eks_Inr [OF ce] by (auto simp: create_nodegroups_frame)
  moreover have "outline (deploy_ssm_agent ?s1) = [(agent_ref, [])]"
    by (simp add: deploy_ssm_agent_frame) (simp add: outline_def create_nodegroups_frame)
  ultimately have "outline s2 = core_outline"
    using deploy_bastion_Inr(7) [OF b]
    by (auto simp: deploy_ssm_agent_frame core_outline_def)
  then have "construct_of s2 autoscaler_config_map_ref = None"
    by (simp add: construct_of_None core_outline_def ref_defs)
  from deploy_cluster_autoscaler_document [OF c this]
  have "expander_document s3 = Some expander_priorities" .
  with d show ?thesis
    by (auto dest: deploy_lb_document split: if_splits)
qed

subsection \<open>The flags dictionary is only carried along\<close>

lemma create_nodegroups_flags:
  "create_nodegroups (s\<lparr>flags := f\<rparr>) = (create_nodegroups s)\<lparr>flags := f\<rparr>"
  by (simp add: create_nodegroups_def)

lemma deploy_ssm_agent_flags:
  "deploy_ssm_agent (s\<lparr>flags := f\<rparr>) = (deploy_ssm_agent s)\<lparr>flags := f\<rparr>"
  by (simp add: deploy_ssm_agent_def)

lemma deploy_bastion_flags:
  "deploy_bastion (s\<lparr>flags := f\<rparr>) = map_sum id (\<lambda>s'. s'\<lparr>flags := f\<rparr>) (deploy_bastion s)"
  by (simp add: deploy_bastion_def Let_def split: option.splits)

lemma deploy_cluster_autoscaler_flags:
  "deploy_cluster_autoscaler (s\<lparr>flags := f\<rparr>) =
     map_sum id (\<lambda>s'. s'\<lparr>flags := f\<rparr>) (deploy_cluster_autoscaler s)"
  by (simp add: deploy_cluster_autoscaler_def Let_def split: option.splits)

lemma deploy_lb_flags:
  "deploy_aws_load_balancer_controller lib n (s\<lparr>flags := f\<rparr>) =
     map_sum id (\<lambda>(s', k). (s'\<lparr>flags := f\<rparr>, k)) (deploy_aws_load_balancer_controller lib n s)"
  by (cases "fetch_policy_statements lib n")
     (simp_all add: deploy_aws_load_balancer_controller_def Let_def)

lemma e_bind_map_sum:
  "e_bind (map_sum id g m) k = e_bind m (\<lambda>x. k (g x))"
  by (cases m) simp_all

lemma map_sum_e_bind:
  "map_sum id g (e_bind m k) = e_bind m (\<lambda>x. map_sum id g (k x))"
  by (cases m) simp_all

lemma addons_plan_flags:
  "addons_plan a b lib n (s\<lparr>flags := f\<rparr>) =
     map_sum id (\<lambda>(s', k). (s'\<lparr>flags := f\<rparr>, k)) (addons_plan a b lib n s)"
  by (cases a; cases b)
     (simp_all add: addons_plan_def deploy_ssm_agent_flags deploy_bastion_flags
        deploy_cluster_autoscaler_flags deploy_lb_flags e_bind_map_sum map_sum_e_bind)

lemma configuration_flags: "configuration (s\<lparr>flags := f\<rparr>) = configuration s"
  by (simp add: configuration_def)

lemma PlatformEKS_configuration_cong:
  assumes "kw1 CLUSTER_NAME = kw2 CLUSTER_NAME" and "kw1 ENV = kw2 ENV"
    and "is_True (flag_value kw1 DEPLOY_CLUSTER_AUTOSCALER)
           = is_True (flag_value kw2 DEPLOY_CLUSTER_AUTOSCALER)"
    and "is_True (flag_value kw1 DEPLOY_AWS_LB_CONTROLLER)
           = is_True (flag_value kw2 DEPLOY_AWS_LB_CONTROLLER)"
  shows "map_sum id (\<lambda>r. (configuration (fst r), snd r)) (PlatformEKS lib n v e kw1) =
         map_sum id (\<lambda>r. (configuration (fst r), snd r)) (PlatformEKS lib n v e kw2)"
proof -
  have ps: "extract_params_from_kwargs kw1 = extract_params_from_kwargs kw2"
    using assms(1,2) by (rule params_cong)
  have init: "\<And>admin sg cl.
      \<lparr>flags = extract_flags_from_kwargs kw1, params = extract_params_from_kwargs kw2,
       env = e, eks_vpc = v, cluster_admin_role = admin, eks_security_group = sg,
       eks_cluster = cl, nodegroup_roles = [], ssm_agent_manifest = None,
       bastion = None, addons = []\<rparr> =
      \<lparr>flags = extract_flags_from_kwargs kw2, params = extract_params_from_kwargs kw2,
       env = e, eks_vpc = v, cluster_admin_role = admin, eks_security_group = sg,
       eks_cluster = cl, nodegroup_roles = [], ssm_agent_manifest = None,
       bastion = None, addons = []\<rparr>\<lparr>flags := extract_flags_from_kwargs kw1\<rparr>"
    by simp
  have erase: "\<And>m :: error + (platform_eks \<times> nat).
      map_sum id (\<lambda>r. (configuration (fst r), snd r))
        (map_sum id (\<lambda>(s', k). (s'\<lparr>flags := extract_flags_from_kwargs kw1\<rparr>, k)) m) =
      map_sum id (\<lambda>r. (configuration (fst r), snd r)) m"
    subgoal for m by (cases m) (auto simp: configuration_flags)
    done
  show ?thesis
  proof (cases "create_eks (extract_params_from_kwargs kw2) v")
    case (Inl err)
    then show ?thesis by (simp add: PlatformEKS_plan ps)
  next
    case (Inr t)
    obtain admin sg cl where t: "t = (admin, sg, cl)" by (cases t) auto
    show ?thesis
      unfolding PlatformEKS_plan ps assms(3,4) Inr t
      by (simp only: e_bind_simps prod.case init create_nodegroups_flags addons_plan_flags erase)
  qed
qed

subsection \<open>The concrete inputs\<close>

lemma example_fetch:
  "fetch_policy_statements example_library n = Inr
     [JObj [(''Effect'', JStr ''Allow''),
            (''Action'', JArr [JStr ''elasticloadbalancing:DescribeLoadBalancers'']),
            (''Resource'', JStr ''*'')]]"
  by (simp add: fetch_policy_statements_def example_library_def example_policy_def
      example_from_json_def)

lemma PlatformEKS_example_ok:
  assumes "kw CLUSTER_NAME = None \<or> (\<exists>a. kw CLUSTER_NAME = Some (PyStr a))"
    and "kw ENV = None \<or> (\<exists>b. kw ENV = Some (PyStr b))"
  shows "\<exists>s n'. PlatformEKS example_library n v e kw = Inr (s, n')"
proof -
  from assms(1) obtain a where a: "extract_params_from_kwargs kw CLUSTER_NAME = Some (PyStr a)"
    by (auto simp: params_cluster_name)
  from assms(2) obtain b where b: "extract_params_from_kwargs kw ENV = Some (PyStr b)"
    by (auto simp: params_env)
  have "\<exists>stmts. fetch_policy_statements example_library n = Inr stmts"
    by (simp add: example_fetch)
  then show ?thesis
    using PlatformEKS_ok [OF a b] by blast
qed

lemma PlatformEKS_declared:
  assumes "PlatformEKS lib n v e kw = Inr (s, n')"
  shows "declared s r \<longleftrightarrow> r \<in> set
    ([agent_ref, (InstanceProfile, ''ClusterAdminRoleInstanceProfile''),
      (SecurityGroup, ''BastionSecurityGroup''), bastion_ref, (Output, ''BastionAddress'')]
     @ (if is_True (flag_value kw DEPLOY_CLUSTER_AUTOSCALER)
        then [autoscaler_sa_ref, autoscaler_config_map_ref, autoscaler_chart_ref] else [])
     @ (if is_True (flag_value kw DEPLOY_AWS_LB_CONTROLLER)
        then [lb_controller_sa_ref, lb_controller_chart_ref] else []))"
  unfolding declared_outline PlatformEKS_Inr(1) [OF assms] outline_refs ..

lemma flag_value_empty: "flag_value Map.empty f = PyBool True"
  by (simp add: flag_value_def)

lemma names_distinct:
  "DEPLOY_CLUSTER_AUTOSCALER \<noteq> CLUSTER_NAME" "DEPLOY_CLUSTER_AUTOSCALER \<noteq> ENV"
  "DEPLOY_AWS_LB_CONTROLLER \<noteq> CLUSTER_NAME" "DEPLOY_AWS_LB_CONTROLLER \<noteq> ENV"
  "DEPLOY_CLUSTER_AUTOSCALER \<noteq> DEPLOY_AWS_LB_CONTROLLER" "CLUSTER_NAME \<noteq> ENV"
  by (simp_all add: DEPLOY_CLUSTER_AUTOSCALER_def DEPLOY_AWS_LB_CONTROLLER_def
      CLUSTER_NAME_def ENV_def)

section \<open>Add-ons and node pools of a produced configuration\<close>

lemma expander_priority_values:
  assumes "PlatformEKS lib n v e kw = Inr (s, n')"
    and "is_True (flag_value kw DEPLOY_CLUSTER_AUTOSCALER)"
  shows "expander_priority s ''od*'' = Some 10" "expander_priority s ''spot*'' = Some 20"
  using PlatformEKS_document [OF assms]
  by (simp_all add: expander_priority_def parse_priorities_expander priority_of_def)

text \<open>
  Claim C1, as amended. When the autoscaler add-on is deployed (its flag \<open>is True\<close>),
  the configuration declares the priority-expander ConfigMap, and in its \<open>priorities\<close>
  document the class holding the pattern \<open>od*\<close> has priority 10 and the class holding
  \<open>spot*\<close> has priority 20: the spot pools carry the higher number, which is the one the
  expander prefers.
\<close>

theorem expander_priorities_spot_above_on_demand:
  assumes "PlatformEKS lib n v e kw = Inr (s, n')"
    and "is_True (flag_value kw DEPLOY_CLUSTER_AUTOSCALER)"
  shows "declared s autoscaler_config_map_ref
       \<and> expander_priority s ''od*'' = Some 10
       \<and> expander_priority s ''spot*'' = Some 20
       \<and> the (expander_priority s ''od*'') < the (expander_priority s ''spot*'')"
  using expander_priority_values [OF assms] assms(2)
  by (simp add: PlatformEKS_declared [OF assms(1)])

text \<open>
  The theorem at a concrete run: no keyword arguments, so both flags default to \<open>True\<close>.
\<close>

theorem expander_priorities_spot_above_on_demand_witness:
  "\<not> isl (PlatformEKS example_library 0 example_vpc example_env Map.empty)
   \<and> is_True (flag_value Map.empty DEPLOY_CLUSTER_AUTOSCALER)
   \<and> expander_priority
        (fst (projr (PlatformEKS example_library 0 example_vpc example_env Map.empty))) ''od*''
        = Some 10
   \<and> expander_priority
        (fst (projr (PlatformEKS example_library 0 example_vpc example_env Map.empty))) ''spot*''
        = Some 20"
proof -
  obtain s n' where r: "PlatformEKS example_library 0 example_vpc example_env Map.empty = Inr (s, n')"
    using PlatformEKS_example_ok [of Map.empty 0 example_vpc example_env] by auto
  have f: "is_True (flag_value Map.empty DEPLOY_CLUSTER_AUTOSCALER)"
    by (simp add: flag_value_empty is_True_def)
  from expander_priorities_spot_above_on_demand [OF r f] f show ?thesis
    by (simp add: r)
qed

text \<open>
  Claim C1 as stated (\<open>od*\<close> at 20 and \<open>spot*\<close> at 10) fails on the same run.
\<close>

theorem expander_on_demand_is_not_20:
  "\<not> isl (PlatformEKS example_library 0 example_vpc example_env Map.empty)
   \<and> is_True (flag_value Map.empty DEPLOY_CLUSTER_AUTOSCALER)
   \<and> \<not> (expander_priority
        (fst (projr (PlatformEKS example_library 0 example_vpc example_env Map.empty))) ''od*''
        = Some 20
      \<and> expander_priority
        (fst (projr (PlatformEKS example_library 0 example_vpc example_env Map.empty))) ''spot*''
        = Some 10)"
proof -
  obtain s n' where r: "PlatformEKS example_library 0 example_vpc example_env Map.empty = Inr (s, n')"
    using PlatformEKS_example_ok [of Map.empty 0 example_vpc example_env] by auto
  have f: "is_True (flag_value Map.empty DEPLOY_CLUSTER_AUTOSCALER)"
    by (simp add: flag_value_empty is_True_def)
  from expander_priority_values [OF r f] f show ?thesis
    by (simp add: r)
qed

lemma PlatformEKS_depends_on:
  assumes "PlatformEKS lib n v e kw = Inr (s, n')"
  shows "depends_on s r d =
     (case find (\<lambda>p. fst p = r)
        (core_outline
          @ (if is_True (flag_value kw DEPLOY_CLUSTER_AUTOSCALER) then autoscaler_outline else [])
          @ (if is_True (flag_value kw DEPLOY_AWS_LB_CONTROLLER) then lb_controller_outline else []))
      of None \<Rightarrow> False | Some p \<Rightarrow> d \<in> set (snd p))"
  unfolding depends_on_outline PlatformEKS_Inr(1) [OF assms] ..

lemma PlatformEKS_first_addon:
  assumes "PlatformEKS lib n v e kw = Inr (s, n')"
  shows "map cref_of (take 1 (addons s)) = [agent_ref]"
proof -
  have "map fst (take 1 (outline s)) = [agent_ref]"
    unfolding PlatformEKS_Inr(1) [OF assms] by (simp add: core_outline_def)
  then show ?thesis
    by (simp add: outline_def take_map comp_def)
qed

lemma addon_dependencies:
  assumes "PlatformEKS lib n v e kw = Inr (s, n')"
  shows "depends_on s bastion_ref agent_ref"
    and "is_True (flag_value kw DEPLOY_CLUSTER_AUTOSCALER) \<Longrightarrow>
           depends_on s autoscaler_chart_ref agent_ref"
    and "is_True (flag_value kw DEPLOY_AWS_LB_CONTROLLER) \<Longrightarrow>
           depends_on s lb_controller_chart_ref lb_controller_sa_ref
           \<and> \<not> depends_on s lb_controller_chart_ref agent_ref"
  by (simp_all add: PlatformEKS_depends_on [OF assms] outline_defs ref_defs)

text \<open>
  Claim C2, as amended. In every produced configuration the agent daemon set is the first
  add-on declared, and the bastion depends on it; when the autoscaler is deployed its chart
  depends on the agent daemon set; when the load-balancer controller is deployed its chart
  depends on its own service account and not on the agent daemon set.
\<close>

theorem addon_ordering:
  assumes "PlatformEKS lib n v e kw = Inr (s, n')"
  shows "map cref_of (take 1 (addons s)) = [agent_ref]
       \<and> declared s bastion_ref \<and> depends_on s bastion_ref agent_ref
       \<and> (is_True (flag_value kw DEPLOY_CLUSTER_AUTOSCALER) \<longrightarrow>
            declared s autoscaler_chart_ref \<and> depends_on s autoscaler_chart_ref agent_ref)
       \<and> (is_True (flag_value kw DEPLOY_AWS_LB_CONTROLLER) \<longrightarrow>
            declared s lb_controller_chart_ref
            \<and> depends_on s lb_controller_chart_ref lb_controller_sa_ref
            \<and> \<not> depends_on s lb_controller_chart_ref agent_ref)"
  using PlatformEKS_first_addon [OF assms] addon_dependencies [OF assms]
  by (simp add: PlatformEKS_declared [OF assms])

text \<open>The theorem on the run with no keyword arguments, where every add-on is deployed.\<close>

theorem addon_ordering_witness:
  "\<not> isl (PlatformEKS example_library 0 example_vpc example_env Map.empty)
   \<and> is_True (flag_value Map.empty DEPLOY_CLUSTER_AUTOSCALER)
   \<and> is_True (flag_value Map.empty DEPLOY_AWS_LB_CONTROLLER)
   \<and> map cref_of (take 1 (addons
        (fst (projr (PlatformEKS example_library 0 example_vpc example_env Map.empty)))))
       = [agent_ref]
   \<and> depends_on (fst (projr (PlatformEKS example_library 0 example_vpc example_env Map.empty)))
        bastion_ref agent_ref
   \<and> depends_on (fst (projr (PlatformEKS example_library 0 example_vpc example_env Map.empty)))
        autoscaler_chart_ref agent_ref
   \<and> depends_on (fst (projr (PlatformEKS example_library 0 example_vpc example_env Map.empty)))
        lb_controller_chart_ref lb_controller_sa_ref"
proof -
  obtain s n' where r: "PlatformEKS example_library 0 example_vpc example_env Map.empty = Inr (s, n')"
    using PlatformEKS_example_ok [of Map.empty 0 example_vpc example_env] by auto
  have f: "is_True (flag_value Map.empty DEPLOY_CLUSTER_AUTOSCALER)"
    "is_True (flag_value Map.empty DEPLOY_AWS_LB_CONTROLLER)"
    by (simp_all add: flag_value_empty is_True_def)
  from addon_ordering [OF r] f show ?thesis
    by (simp add: r)
qed

text \<open>
  Claim C2 as stated fails on that run: the load-balancer controller's chart is deployed
  and carries no dependency on the agent daemon set.
\<close>

theorem lb_controller_not_ordered_after_agent:
  "\<not> isl (PlatformEKS example_library 0 example_vpc example_env Map.empty)
   \<and> declared (fst (projr (PlatformEKS example_library 0 example_vpc example_env Map.empty)))
        lb_controller_chart_ref
   \<and> \<not> depends_on (fst (projr (PlatformEKS example_library 0 example_vpc example_env Map.empty)))
        lb_controller_chart_ref agent_ref"
proof -
  obtain s n' where r: "PlatformEKS example_library 0 example_vpc example_env Map.empty = Inr (s, n')"
    using PlatformEKS_example_ok [of Map.empty 0 example_vpc example_env] by auto
  have f: "is_True (flag_value Map.empty DEPLOY_AWS_LB_CONTROLLER)"
    by (simp add: flag_value_empty is_True_def)
  from addon_dependencies(3) [OF r f] f show ?thesis
    by (simp add: r PlatformEKS_declared [OF r])
qed

lemma flag_value_upd: "flag_value (kw(f \<mapsto> v)) f = v"
  by (simp add: flag_value_def)

lemma autoscaler_refs_declared:
  assumes "PlatformEKS lib n v e kw = Inr (s, n')"
  shows "declared s autoscaler_sa_ref = is_True (flag_value kw DEPLOY_CLUSTER_AUTOSCALER)"
    and "declared s autoscaler_config_map_ref = is_True (flag_value kw DEPLOY_CLUSTER_AUTOSCALER)"
    and "declared s autoscaler_chart_ref = is_True (flag_value kw DEPLOY_CLUSTER_AUTOSCALER)"
  by (simp_all add: PlatformEKS_declared [OF assms] ref_defs)

lemma lb_controller_refs_declared:
  assumes "PlatformEKS lib n v e kw = Inr (s, n')"
  shows "declared s lb_controller_sa_ref = is_True (flag_value kw DEPLOY_AWS_LB_CONTROLLER)"
    and "declared s lb_controller_chart_ref = is_True (flag_value kw DEPLOY_AWS_LB_CONTROLLER)"
  by (simp_all add: PlatformEKS_declared [OF assms] ref_defs)

text \<open>
  Claim C5. For every run of the cluster builder that produces a configuration: when the
  autoscaler flag is supplied as \<open>False\<close>, none of the autoscaler's constructs (service
  account, priority-expander ConfigMap, chart) is declared; when it is supplied as \<open>True\<close>
  or not supplied, all three are.
\<close>

theorem autoscaler_follows_its_flag:
  assumes "PlatformEKS lib n v e kw = Inr (s, n')"
  shows "(kw DEPLOY_CLUSTER_AUTOSCALER = Some (PyBool False) \<longrightarrow>
            \<not> declared s autoscaler_sa_ref \<and> \<not> declared s autoscaler_config_map_ref
            \<and> \<not> declared s autoscaler_chart_ref)
       \<and> (kw DEPLOY_CLUSTER_AUTOSCALER = Some (PyBool True) \<or> kw DEPLOY_CLUSTER_AUTOSCALER = None \<longrightarrow>
            declared s autoscaler_sa_ref \<and> declared s autoscaler_config_map_ref
            \<and> declared s autoscaler_chart_ref)"
  by (auto simp: autoscaler_refs_declared [OF assms] flag_value_def is_True_def)

text \<open>
  The theorem on three runs: the flag supplied as \<open>False\<close>, supplied as \<open>True\<close>, and
  omitted. Each run returns a configuration.
\<close>

theorem autoscaler_follows_its_flag_witness:
  "\<not> isl (PlatformEKS example_library 0 example_vpc example_env
             [DEPLOY_CLUSTER_AUTOSCALER \<mapsto> PyBool False])
   \<and> \<not> declared (fst (projr (PlatformEKS example_library 0 example_vpc example_env
             [DEPLOY_CLUSTER_AUTOSCALER \<mapsto> PyBool False]))) autoscaler_sa_ref
   \<and> \<not> declared (fst (projr (PlatformEKS example_library 0 example_vpc example_env
             [DEPLOY_CLUSTER_AUTOSCALER \<mapsto> PyBool False]))) autoscaler_config_map_ref
   \<and> \<not> declared (fst (projr (PlatformEKS example_library 0 example_vpc example_env
             [DEPLOY_CLUSTER_AUTOSCALER \<mapsto> PyBool False]))) autoscaler_chart_ref
   \<and> \<not> isl (PlatformEKS example_library 0 example_vpc example_env
             [DEPLOY_CLUSTER_AUTOSCALER \<mapsto> PyBool True])
   \<and> declared (fst (projr (PlatformEKS example_library 0 example_vpc example_env
             [DEPLOY_CLUSTER_AUTOSCALER \<mapsto> PyBool True]))) autoscaler_chart_ref
   \<and> \<not> isl (PlatformEKS example_library 0 example_vpc example_env Map.empty)
   \<and> declared (fst (projr (PlatformEKS example_library 0 example_vpc example_env Map.empty)))
        autoscaler_sa_ref
   \<and> declared (fst (projr (PlatformEKS example_library 0 example_vpc example_env Map.empty)))
        autoscaler_config_map_ref
   \<and> declared (fst (projr (PlatformEKS example_library 0 example_vpc example_env Map.empty)))
        autoscaler_chart_ref"
proof -
  let ?off = "[DEPLOY_CLUSTER_AUTOSCALER \<mapsto> PyBool False]"
  let ?on = "[DEPLOY_CLUSTER_AUTOSCALER \<mapsto> PyBool True]"
  obtain s1 n1 where
    r1: "PlatformEKS example_library 0 example_vpc example_env ?off = Inr (s1, n1)"
    using PlatformEKS_example_ok [of ?off 0 example_vpc example_env]
    by (auto simp: names_distinct names_distinct [symmetric])
  obtain s2 n2 where
    r2: "PlatformEKS example_library 0 example_vpc example_env ?on = Inr (s2, n2)"
    using PlatformEKS_example_ok [of ?on 0 example_vpc example_env]
    by (auto simp: names_distinct names_distinct [symmetric])
  obtain s3 n3 where
    r3: "PlatformEKS example_library 0 example_vpc example_env Map.empty = Inr (s3, n3)"
    using PlatformEKS_example_ok [of Map.empty 0 example_vpc example_env] by auto
  from autoscaler_follows_its_flag [OF r1] autoscaler_follows_its_flag [OF r2]
    autoscaler_follows_its_flag [OF r3]
  show ?thesis
    by (simp add: r1 r2 r3)
qed

lemma nodegroup_shapes:
  "map (\<lambda>g. (nodegroup_name g, ng_capacity_type g, card (set (instance_types g))))
     [od_default_nodegroup, spot_default_nodegroup, od_graviton_nodegroup] =
   [(''od-default-ng'', ON_DEMAND, 1), (''spot-default-ng'', SPOT, 4),
    (''od-graviton-ng'', SPOT, 1)]"
  by (simp add: od_default_nodegroup_def spot_default_nodegroup_def od_graviton_nodegroup_def)

text \<open>
  Claim C9. In every produced configuration the on-demand pool \<open>od-default-ng\<close> allows one
  instance shape and the spot pool \<open>spot-default-ng\<close> four; and every pool of capacity
  type spot allows at least as many shapes as every pool of capacity type on-demand.
\<close>

theorem spot_pool_has_more_shapes:
  assumes "PlatformEKS lib n v e kw = Inr (s, n')"
  shows "map (\<lambda>g. (nodegroup_name g, ng_capacity_type g, card (set (instance_types g))))
           (nodegroups (eks_cluster s)) =
         [(''od-default-ng'', ON_DEMAND, 1), (''spot-default-ng'', SPOT, 4),
          (''od-graviton-ng'', SPOT, 1)]
       \<and> list_all (\<lambda>sp. list_all
             (\<lambda>od. card (set (instance_types od)) \<le> card (set (instance_types sp)))
             (filter (\<lambda>g. ng_capacity_type g = ON_DEMAND) (nodegroups (eks_cluster s))))
           (filter (\<lambda>g. ng_capacity_type g = SPOT) (nodegroups (eks_cluster s)))"
  unfolding PlatformEKS_Inr(6) [OF assms] nodegroup_shapes
  by (simp add: od_default_nodegroup_def spot_default_nodegroup_def od_graviton_nodegroup_def)

text \<open>The theorem on the run with no keyword arguments.\<close>

theorem spot_pool_has_more_shapes_witness:
  "\<not> isl (PlatformEKS example_library 0 example_vpc example_env Map.empty)
   \<and> map (\<lambda>g. (nodegroup_name g, ng_capacity_type g, card (set (instance_types g))))
       (nodegroups (eks_cluster
          (fst (projr (PlatformEKS example_library 0 example_vpc example_env Map.empty))))) =
     [(''od-default-ng'', ON_DEMAND, 1), (''spot-default-ng'', SPOT, 4),
      (''od-graviton-ng'', SPOT, 1)]"
proof -
  obtain s n' where r: "PlatformEKS example_library 0 example_vpc example_env Map.empty = Inr (s, n')"
    using PlatformEKS_example_ok [of Map.empty 0 example_vpc example_env] by auto
  from spot_pool_has_more_shapes [OF r] show ?thesis
    by (simp add: r)
qed

lemma not_True_is_False:
  assumes "val \<noteq> PyBool True"
  shows "map_sum id (\<lambda>r. (configuration (fst r), snd r))
           (PlatformEKS lib n v e (kw(DEPLOY_CLUSTER_AUTOSCALER \<mapsto> val))) =
         map_sum id (\<lambda>r. (configuration (fst r), snd r))
           (PlatformEKS lib n v e (kw(DEPLOY_CLUSTER_AUTOSCALER \<mapsto> PyBool False)))"
    and "map_sum id (\<lambda>r. (configuration (fst r), snd r))
           (PlatformEKS lib n v e (kw(DEPLOY_AWS_LB_CONTROLLER \<mapsto> val))) =
         map_sum id (\<lambda>r. (configuration (fst r), snd r))
           (PlatformEKS lib n v e (kw(DEPLOY_AWS_LB_CONTROLLER \<mapsto> PyBool False)))"
  using assms
  by (auto intro!: PlatformEKS_configuration_cong
      simp: names_distinct names_distinct [symmetric] flag_value_def is_True_def)

text \<open>
  Claim C10. A flag is tested with \<open>is True\<close>: for every supplied value other than the
  boolean \<open>True\<close> (so in particular for a truthy value such as \<open>1\<close> or a non-empty
  string), the run declares what it declares when the flag is \<open>False\<close>, and the
  constructs of the corresponding add-on are not declared.
\<close>

theorem flag_is_compared_by_identity:
  assumes "val \<noteq> PyBool True"
  shows "map_sum id (\<lambda>r. (configuration (fst r), snd r))
           (PlatformEKS lib n v e (kw(DEPLOY_CLUSTER_AUTOSCALER \<mapsto> val))) =
         map_sum id (\<lambda>r. (configuration (fst r), snd r))
           (PlatformEKS lib n v e (kw(DEPLOY_CLUSTER_AUTOSCALER \<mapsto> PyBool False)))
       \<and> map_sum id (\<lambda>r. (configuration (fst r), snd r))
           (PlatformEKS lib n v e (kw(DEPLOY_AWS_LB_CONTROLLER \<mapsto> val))) =
         map_sum id (\<lambda>r. (configuration (fst r), snd r))
           (PlatformEKS lib n v e (kw(DEPLOY_AWS_LB_CONTROLLER \<mapsto> PyBool False)))
       \<and> (\<forall>s n'. PlatformEKS lib n v e (kw(DEPLOY_CLUSTER_AUTOSCALER \<mapsto> val)) = Inr (s, n') \<longrightarrow>
             \<not> declared s autoscaler_sa_ref \<and> \<not> declared s autoscaler_config_map_ref
             \<and> \<not> declared s autoscaler_chart_ref)
       \<and> (\<forall>s n'. PlatformEKS lib n v e (kw(DEPLOY_AWS_LB_CONTROLLER \<mapsto> val)) = Inr (s, n') \<longrightarrow>
             \<not> declared s lb_controller_sa_ref \<and> \<not> declared s lb_controller_chart_ref)"
  using assms not_True_is_False [OF assms]
  by (auto simp: autoscaler_refs_declared lb_controller_refs_declared flag_value_upd is_True_def)

text \<open>
  The theorem at the integer \<open>1\<close>, a truthy value: the run with the autoscaler flag \<open>1\<close>
  returns, declares no autoscaler, and declares what the run with the flag \<open>False\<close> does;
  the same for the load-balancer controller's flag.
\<close>

theorem flag_is_compared_by_identity_witness:
  "truthy (PyInt 1) \<and> PyInt 1 \<noteq> PyBool True
   \<and> \<not> isl (PlatformEKS example_library 0 example_vpc example_env
             [DEPLOY_CLUSTER_AUTOSCALER \<mapsto> PyInt 1])
   \<and> \<not> declared (fst (projr (PlatformEKS example_library 0 example_vpc example_env
             [DEPLOY_CLUSTER_AUTOSCALER \<mapsto> PyInt 1]))) autoscaler_chart_ref
   \<and> map_sum id (\<lambda>r. (configuration (fst r), snd r))
        (PlatformEKS example_library 0 example_vpc example_env
           [DEPLOY_CLUSTER_AUTOSCALER \<mapsto> PyInt 1]) =
      map_sum id (\<lambda>r. (configuration (fst r), snd r))
        (PlatformEKS example_library 0 example_vpc example_env
           [DEPLOY_CLUSTER_AUTOSCALER \<mapsto> PyBool False])
   \<and> \<not> isl (PlatformEKS example_library 0 example_vpc example_env
             [DEPLOY_AWS_LB_CONTROLLER \<mapsto> PyInt 1])
   \<and> \<not> declared (fst (projr (PlatformEKS example_library 0 example_vpc example_env
             [DEPLOY_AWS_LB_CONTROLLER \<mapsto> PyInt 1]))) lb_controller_chart_ref"
proof -
  let ?ca = "[DEPLOY_CLUSTER_AUTOSCALER \<mapsto> PyInt 1]"
  let ?lb = "[DEPLOY_AWS_LB_CONTROLLER \<mapsto> PyInt 1]"
  have ne: "PyInt 1 \<noteq> PyBool True" by simp
  obtain s1 n1 where
    r1: "PlatformEKS example_library 0 example_vpc example_env ?ca = Inr (s1, n1)"
    using PlatformEKS_example_ok [of ?ca 0 example_vpc example_env]
    by (auto simp: names_distinct names_distinct [symmetric])
  obtain s2 n2 where
    r2: "PlatformEKS example_library 0 example_vpc example_env ?lb = Inr (s2, n2)"
    using PlatformEKS_example_ok [of ?lb 0 example_vpc example_env]
    by (auto simp: names_distinct names_distinct [symmetric])
  from flag_is_compared_by_identity
         [OF ne, of example_library 0 example_vpc example_env Map.empty]
  show ?thesis
    using r1 r2 by simp
qed

section \<open>The stage\<close>

lemma platform_eks_kwargs_flags:
  "flag_value (platform_eks_kwargs en kw) DEPLOY_CLUSTER_AUTOSCALER = PyBool True"
  "flag_value (platform_eks_kwargs en kw) DEPLOY_AWS_LB_CONTROLLER = PyBool True"
  by (simp_all add: flag_value_def platform_eks_kwargs_def DEPLOY_CLUSTER_AUTOSCALER_def
      DEPLOY_AWS_LB_CONTROLLER_def)

lemma platform_eks_kwargs_params:
  "platform_eks_kwargs en kw CLUSTER_NAME = Some (platform_cluster_name kw)"
  "platform_eks_kwargs en kw ENV = Some en"
  by (simp_all add: platform_eks_kwargs_def CLUSTER_NAME_def ENV_def)

lemma Platform_Inr:
  assumes "Platform network lib n sid e od ena kw = Inr (p, n')"
  shows "PlatformEKS lib n (network sid) e (platform_eks_kwargs (env_name_of ena) kw)
           = Inr (eks p, n')"
    and "stage_id p = sid" and "stage_env p = e" and "stage_stacks p = [''Network'', ''EKS'']"
    and "n' = Suc n"
proof -
  from assms obtain k where
    k: "PlatformEKS lib n (network sid) e (platform_eks_kwargs (env_name_of ena) kw)
          = Inr (k, n')"
    and p: "p = \<lparr>stage_id = sid, stage_env = e, stage_outdir = od,
                 stage_stacks = [''Network'', ''EKS''], network_vpc = network sid, eks = k\<rparr>"
    by (auto simp: Platform_def Let_def e_bind_Inr)
  show "PlatformEKS lib n (network sid) e (platform_eks_kwargs (env_name_of ena) kw)
           = Inr (eks p, n')"
    using k p by simp
  show "stage_id p = sid" "stage_env p = e" "stage_stacks p = [''Network'', ''EKS'']"
    using p by simp_all
  show "n' = Suc n"
    using PlatformEKS_Inr(7) [OF k] by (simp add: platform_eks_kwargs_flags is_True_def)
qed

lemma Platform_ok:
  assumes "platform_cluster_name kw = PyStr a" and "env_name_of ena = PyStr b"
    and "fetch_policy_statements lib n = Inr stmts"
  shows "\<exists>p. Platform network lib n sid e od ena kw = Inr (p, Suc n)"
proof -
  have "\<exists>s n'. PlatformEKS lib n (network sid) e (platform_eks_kwargs (env_name_of ena) kw)
          = Inr (s, n')"
    using assms
    by (intro PlatformEKS_ok [of _ a b])
       (auto simp: params_cluster_name params_env platform_eks_kwargs_params)
  then obtain s n' where
    k: "PlatformEKS lib n (network sid) e (platform_eks_kwargs (env_name_of ena) kw)
          = Inr (s, n')"
    by blast
  have "n' = Suc n"
    using PlatformEKS_Inr(7) [OF k] by (simp add: platform_eks_kwargs_flags is_True_def)
  with k show ?thesis
    by (simp add: Platform_def Let_def)
qed

lemma Platform_cluster:
  assumes "Platform network lib n sid e od ena kw = Inr (p, n')"
  shows "\<exists>a b. platform_cluster_name kw = PyStr a \<and> env_name_of ena = PyStr b
           \<and> cluster_name (eks_cluster (eks p)) = a @ ''-'' @ b"
    and "default_capacity (eks_cluster (eks p)) = 0"
    and "nodegroups (eks_cluster (eks p)) =
           [od_default_nodegroup, spot_default_nodegroup, od_graviton_nodegroup]"
    and "params (eks p) CLUSTER_NAME = Some (platform_cluster_name kw)"
proof -
  note k = Platform_Inr(1) [OF assms]
  show "params (eks p) CLUSTER_NAME = Some (platform_cluster_name kw)"
    using PlatformEKS_Inr(3) [OF k]
    by (simp add: params_cluster_name platform_eks_kwargs_params)
  moreover have "params (eks p) ENV = Some (env_name_of ena)"
    using PlatformEKS_Inr(3) [OF k]
    by (simp add: params_env platform_eks_kwargs_params)
  ultimately show "\<exists>a b. platform_cluster_name kw = PyStr a \<and> env_name_of ena = PyStr b
           \<and> cluster_name (eks_cluster (eks p)) = a @ ''-'' @ b"
    using PlatformEKS_Inr(4) [OF k] by auto
  show "default_capacity (eks_cluster (eks p)) = 0"
    using PlatformEKS_Inr(5) [OF k] .
  show "nodegroups (eks_cluster (eks p)) =
           [od_default_nodegroup, spot_default_nodegroup, od_graviton_nodegroup]"
    using PlatformEKS_Inr(6) [OF k] .
qed

text \<open>
  Claim C3. Every \<open>Platform\<close> stage produced with the cluster name \<open>"eks-test"\<close> and the
  environment name \<open>"dev"\<close> has a cluster named \<open>"eks-test-dev"\<close> with default capacity
  zero and exactly the three node pools \<open>od-default-ng\<close>, \<open>spot-default-ng\<close> and
  \<open>od-graviton-ng\<close>, in this order.
\<close>

theorem dev_stage_cluster:
  assumes "kw ''cluster_name'' = Some (PyStr ''eks-test'')"
    and "Platform network lib n sid e od (Some (PyStr ''dev'')) kw = Inr (p, n')"
  shows "cluster_name (eks_cluster (eks p)) = ''eks-test-dev''
       \<and> default_capacity (eks_cluster (eks p)) = 0
       \<and> map nodegroup_name (nodegroups (eks_cluster (eks p))) =
           [''od-default-ng'', ''spot-default-ng'', ''od-graviton-ng'']"
proof -
  have cn: "platform_cluster_name kw = PyStr ''eks-test''"
    using assms(1) by (simp add: platform_cluster_name_def)
  have en: "env_name_of (Some (PyStr ''dev'')) = PyStr ''dev''"
    by (simp add: env_name_of_def)
  show ?thesis
    using Platform_cluster [OF assms(2)] cn en
    by (auto simp: od_default_nodegroup_def spot_default_nodegroup_def od_graviton_nodegroup_def)
qed

text \<open>
  The theorem on the call that \<open>app.py\<close> makes, with a library that answers the request
  and accepts the statements of the document: the stage is produced.
\<close>

theorem dev_stage_cluster_witness:
  "\<not> isl (Platform example_network example_library 0 ''Platform-Dev'' example_env None
            (Some (PyStr ''dev'')) [''cluster_name'' \<mapsto> PyStr ''eks-test''])
   \<and> cluster_name (eks_cluster (eks (fst (projr
        (Platform example_network example_library 0 ''Platform-Dev'' example_env None
            (Some (PyStr ''dev'')) [''cluster_name'' \<mapsto> PyStr ''eks-test''])))))
       = ''eks-test-dev''
   \<and> default_capacity (eks_cluster (eks (fst (projr
        (Platform example_network example_library 0 ''Platform-Dev'' example_env None
            (Some (PyStr ''dev'')) [''cluster_name'' \<mapsto> PyStr ''eks-test''])))))
       = 0
   \<and> map nodegroup_name (nodegroups (eks_cluster (eks (fst (projr
        (Platform example_network example_library 0 ''Platform-Dev'' example_env None
            (Some (PyStr ''dev'')) [''cluster_name'' \<mapsto> PyStr ''eks-test'']))))))
       = [''od-default-ng'', ''spot-default-ng'', ''od-graviton-ng'']"
proof -
  let ?kw = "[''cluster_name'' \<mapsto> PyStr ''eks-test'']"
  have kw: "?kw ''cluster_name'' = Some (PyStr ''eks-test'')" by simp
  have "\<exists>p. Platform example_network example_library 0 ''Platform-Dev'' example_env None
          (Some (PyStr ''dev'')) ?kw = Inr (p, Suc 0)"
    by (rule Platform_ok [where a = "''eks-test''" and b = "''dev''"])
       (simp_all add: platform_cluster_name_def env_name_of_def example_fetch)
  then obtain p where
    r: "Platform example_network example_library 0 ''Platform-Dev'' example_env None
          (Some (PyStr ''dev'')) ?kw = Inr (p, Suc 0)"
    by blast
  from dev_stage_cluster
         [where kw = "?kw" and lib = example_library and n = 0 and network = example_network
            and sid = "''Platform-Dev''" and e = example_env and od = None, OF kw r]
  show ?thesis by (simp add: r)
qed

text \<open>
  Claim C8. The cluster name among the keyword arguments that a stage hands to the cluster
  builder is \<open>"eks"\<close> when the stage was given no \<open>cluster_name\<close>, and the given value,
  whatever it is, otherwise; the cluster builder of every stage produced holds that value
  as its cluster-name parameter.
\<close>

theorem stage_cluster_name_default:
  "(kw ''cluster_name'' = None \<longrightarrow>
      platform_eks_kwargs en kw CLUSTER_NAME = Some (PyStr ''eks''))
   \<and> (\<forall>val. kw ''cluster_name'' = Some val \<longrightarrow>
         platform_eks_kwargs en kw CLUSTER_NAME = Some val)
   \<and> (\<forall>p n'. Platform network lib n sid e od ena kw = Inr (p, n') \<longrightarrow>
         params (eks p) CLUSTER_NAME =
           Some (case kw ''cluster_name'' of None \<Rightarrow> PyStr ''eks'' | Some val \<Rightarrow> val))"
  by (auto simp: platform_eks_kwargs_params platform_cluster_name_def
      dest!: Platform_cluster(4) split: option.splits)

text \<open>
  The theorem on three calls: no cluster name, the name \<open>"eks-test"\<close>, and a value that is
  not a string; the first is also followed into the stage it produces.
\<close>

theorem stage_cluster_name_default_witness:
  "platform_eks_kwargs (PyStr ''eks-env'') Map.empty CLUSTER_NAME = Some (PyStr ''eks'')
   \<and> platform_eks_kwargs (PyStr ''dev'') [''cluster_name'' \<mapsto> PyStr ''eks-test''] CLUSTER_NAME
       = Some (PyStr ''eks-test'')
   \<and> platform_eks_kwargs (PyStr ''dev'') [''cluster_name'' \<mapsto> PyInt 7] CLUSTER_NAME
       = Some (PyInt 7)
   \<and> \<not> isl (Platform example_network example_library 0 ''Platform-Prod'' example_env None None
            Map.empty)
   \<and> params (eks (fst (projr
        (Platform example_network example_library 0 ''Platform-Prod'' example_env None None
            Map.empty)))) CLUSTER_NAME = Some (PyStr ''eks'')"
proof -
  have "\<exists>p. Platform example_network example_library 0 ''Platform-Prod'' example_env None None
          Map.empty = Inr (p, Suc 0)"
    by (rule Platform_ok [where a = "''eks''" and b = "''eks-env''"])
       (simp_all add: platform_cluster_name_def env_name_of_def example_fetch)
  then obtain p where
    r: "Platform example_network example_library 0 ''Platform-Prod'' example_env None None
          Map.empty = Inr (p, Suc 0)"
    by blast
  from stage_cluster_name_default
         [of Map.empty "PyStr ''eks-env''" example_network example_library 0 "''Platform-Prod''"
            example_env None None]
       stage_cluster_name_default
         [of "[''cluster_name'' \<mapsto> PyStr ''eks-test'']" "PyStr ''dev''"]
       stage_cluster_name_default
         [of "[''cluster_name'' \<mapsto> PyInt 7]" "PyStr ''dev''"]
  show ?thesis
    using r by simp
qed

section \<open>The pipeline\<close>

lemma default_environment_Inr:
  "default_environment environ = Inr env0 \<longleftrightarrow>
     environ CDK_DEFAULT_ACCOUNT = Some (account env0)
     \<and> environ CDK_DEFAULT_REGION = Some (region env0) \<and> environment.more env0 = ()"
  by (cases env0) (auto simp: default_environment_def e_bind_Inr subscript_Inr)

subsection \<open>Run orders\<close>

lemma fold_max_ge_elem: "k \<in> set ks \<Longrightarrow> (k::nat) \<le> fold max ks m"
proof (induction ks arbitrary: m)
  case Nil
  then show ?case by simp
next
  case (Cons x xs)
  have init: "\<And>j. (j::nat) \<le> fold max xs j"
    subgoal for j
    proof (induction xs arbitrary: j)
      case Nil
      show ?case by simp
    next
      case (Cons y ys)
      have "j \<le> max y j" by simp
      also have "\<dots> \<le> fold max ys (max y j)" by (rule Cons.IH)
      finally show ?case by simp
    qed
    done
  show ?case
  proof (cases "k = x")
    case True
    have "k \<le> max x m" using True by simp
    also have "\<dots> \<le> fold max xs (max x m)" by (rule init)
    finally show ?thesis by simp
  next
    case False
    with Cons.prems have "k \<in> set xs" by simp
    from Cons.IH [OF this] show ?thesis by simp
  qed
qed

lemma run_orders_below_next:
  "list_all (\<lambda>ak. snd ak < next_sequential_run_order st) (stage_actions st)"
proof -
  have "snd ak < next_sequential_run_order st" if "ak \<in> set (stage_actions st)" for ak
  proof -
    from that have "snd ak \<in> set (map snd (stage_actions st))" by simp
    from fold_max_ge_elem [OF this, of 0] show ?thesis
      by (simp add: next_sequential_run_order_def less_Suc_eq_le)
  qed
  then show ?thesis by (simp add: list_all_iff)
qed

subsection \<open>What a produced pipeline holds\<close>

lemma add_pre_prod_stage_Inr:
  assumes "add_pre_prod_stage network lib n environ p = Inr (p1, pre, n1)"
  shows "\<exists>env0. default_environment environ = Inr env0
           \<and> Platform network lib n ''Platform-PreProd'' env0 None
               (Some (PyStr ''pre-prod'')) Map.empty = Inr (pre, n1)"
    and "p1 = add_application_stage
           (add_manual_approval_action ''ConfirmPreProdDeployment''
              (next_sequential_run_order (application_stage lib pre))
              (application_stage lib pre)) p"
  using assms
  by (auto simp: add_pre_prod_stage_def e_bind_Inr Let_def)

lemma add_prod_stage_Inr:
  assumes "add_prod_stage network lib n environ p = Inr (p2, prd, n2)"
  shows "\<exists>a. environ CDK_DEFAULT_ACCOUNT = Some a
           \<and> Platform network lib n ''Platform-Prod''
               \<lparr>account = a, region = ''eu-central-1''\<rparr> None None Map.empty = Inr (prd, n2)"
    and "p2 = add_application_stage (application_stage lib prd) p"
  using assms
  by (auto simp: add_prod_stage_def e_bind_Inr Let_def subscript_Inr)

lemma Pipeline_Inr:
  assumes "Pipeline network lib n environ cli i e = Inr (pl, n')"
  shows "\<exists>env0. default_environment environ = Inr env0
           \<and> Platform network lib n ''Platform-PreProd'' env0 None
               (Some (PyStr ''pre-prod'')) Map.empty
               = Inr (pre_prod_platform_stage pl, Suc n)"
    and "\<exists>a. environ CDK_DEFAULT_ACCOUNT = Some a
           \<and> Platform network lib (Suc n) ''Platform-Prod''
               \<lparr>account = a, region = ''eu-central-1''\<rparr> None None Map.empty
               = Inr (prod_platform_stage pl, n')"
    and "n' = Suc (Suc n)"
    and "\<exists>ver. cli = Inr ver \<and> cdk_cli_version (engine pl) = ver"
    and "source_action (engine pl) =
           GitHubSourceAction ''GitHub'' (Artifact 0) ''github-token'' ''github-user''
             ''eks-platform'' ''main''"
    and "synth_action (engine pl) =
           SimpleSynthAction (Artifact 0) (Artifact 1)
             [''pyenv local 3.7.10'', ''./scripts/install-deps.sh''] ''npx cdk synth''"
    and "cloud_assembly_artifact (engine pl) = Artifact 1"
    and "application_stages (engine pl) =
           [add_manual_approval_action ''ConfirmPreProdDeployment''
              (next_sequential_run_order (application_stage lib (pre_prod_platform_stage pl)))
              (application_stage lib (pre_prod_platform_stage pl)),
            application_stage lib (prod_platform_stage pl)]"
proof -
  from assms obtain ver p1 pre n1 p2 prd where
    ver: "cli = Inr ver" and
    a1: "add_pre_prod_stage network lib n environ
           \<lparr>pipeline_id = ''EKSPlatform'',
            source_action = GitHubSourceAction ''GitHub'' (Artifact 0) ''github-token''
                              ''github-user'' ''eks-platform'' ''main'',
            synth_action = SimpleSynthAction (Artifact 0) (Artifact 1)
                             [''pyenv local 3.7.10'', ''./scripts/install-deps.sh'']
                             ''npx cdk synth'',
            single_publisher_per_type = True, cdk_cli_version = ver,
            cloud_assembly_artifact = Artifact 1, application_stages = []\<rparr>
           = Inr (p1, pre, n1)" (is "add_pre_prod_stage _ _ _ _ ?p0 = _") and
    a2: "add_prod_stage network lib n1 environ p1 = Inr (p2, prd, n')" and
    pl: "pl = \<lparr>stack_id = i, stack_env = e, engine = p2,
               pre_prod_platform_stage = pre, prod_platform_stage = prd\<rparr>"
    by (auto simp: Pipeline_def Let_def e_bind_Inr)
  note b1 = add_pre_prod_stage_Inr [OF a1]
  note b2 = add_prod_stage_Inr [OF a2]
  from b1(1) obtain env0 where
    e0: "default_environment environ = Inr env0" and
    q1: "Platform network lib n ''Platform-PreProd'' env0 None
           (Some (PyStr ''pre-prod'')) Map.empty = Inr (pre, n1)"
    by blast
  have n1: "n1 = Suc n" using Platform_Inr(5) [OF q1] .
  from b2(1) obtain a where
    a: "environ CDK_DEFAULT_ACCOUNT = Some a" and
    q2: "Platform network lib n1 ''Platform-Prod''
           \<lparr>account = a, region = ''eu-central-1''\<rparr> None None Map.empty = Inr (prd, n')"
    by blast
  show "\<exists>env0. default_environment environ = Inr env0
           \<and> Platform network lib n ''Platform-PreProd'' env0 None
               (Some (PyStr ''pre-prod'')) Map.empty
               = Inr (pre_prod_platform_stage pl, Suc n)"
    using e0 q1 n1 pl by auto
  show "\<exists>a. environ CDK_DEFAULT_ACCOUNT = Some a
           \<and> Platform network lib (Suc n) ''Platform-Prod''
               \<lparr>account = a, region = ''eu-central-1''\<rparr> None None Map.empty
               = Inr (prod_platform_stage pl, n')"
    using a q2 n1 pl by auto
  show "n' = Suc (Suc n)"
    using Platform_Inr(5) [OF q2] n1 by simp
  have p2: "p2 = add_application_stage (application_stage lib prd)
              (add_application_stage
                 (add_manual_approval_action ''ConfirmPreProdDeployment''
                    (next_sequential_run_order (application_stage lib pre))
                    (application_stage lib pre))
                 ?p0)"
    using b1(2) b2(2) by simp
  show "\<exists>ver. cli = Inr ver \<and> cdk_cli_version (engine pl) = ver"
    using ver pl p2 by (simp add: add_application_stage_def)
  show "source_action (engine pl) =
           GitHubSourceAction ''GitHub'' (Artifact 0) ''github-token'' ''github-user''
             ''eks-platform'' ''main''"
    using pl p2 by (simp add: add_application_stage_def)
  show "synth_action (engine pl) =
           SimpleSynthAction (Artifact 0) (Artifact 1)
             [''pyenv local 3.7.10'', ''./scripts/install-deps.sh''] ''npx cdk synth''"
    using pl p2 by (simp add: add_application_stage_def)
  show "cloud_assembly_artifact (engine pl) = Artifact 1"
    using pl p2 by (simp add: add_application_stage_def)
  show "application_stages (engine pl) =
           [add_manual_approval_action ''ConfirmPreProdDeployment''
              (next_sequential_run_order (application_stage lib (pre_prod_platform_stage pl)))
              (application_stage lib (pre_prod_platform_stage pl)),
            application_stage lib (prod_platform_stage pl)]"
    using pl p2 by (simp add: add_application_stage_def)
qed

lemma Pipeline_stages:
  assumes "Pipeline network lib n environ cli i e = Inr (pl, n')"
  shows "application_stage lib (pre_prod_platform_stage pl) =
           \<lparr>stage_name = ''Platform-PreProd'',
            stage_actions = deployment lib ''Platform-PreProd'' [''Network'', ''EKS'']\<rparr>"
    and "application_stage lib (prod_platform_stage pl) =
           \<lparr>stage_name = ''Platform-Prod'',
            stage_actions = deployment lib ''Platform-Prod'' [''Network'', ''EKS'']\<rparr>"
proof -
  note P = Pipeline_Inr [OF assms]
  from P(1) obtain env0 where
    q1: "Platform network lib n ''Platform-PreProd'' env0 None
           (Some (PyStr ''pre-prod'')) Map.empty = Inr (pre_prod_platform_stage pl, Suc n)"
    by blast
  from P(2) obtain a where
    q2: "Platform network lib (Suc n) ''Platform-Prod''
           \<lparr>account = a, region = ''eu-central-1''\<rparr> None None Map.empty
           = Inr (prod_platform_stage pl, n')"
    by blast
  show "application_stage lib (pre_prod_platform_stage pl) =
           \<lparr>stage_name = ''Platform-PreProd'',
            stage_actions = deployment lib ''Platform-PreProd'' [''Network'', ''EKS'']\<rparr>"
    using Platform_Inr(2,4) [OF q1] by (simp add: application_stage_def)
  show "application_stage lib (prod_platform_stage pl) =
           \<lparr>stage_name = ''Platform-Prod'',
            stage_actions = deployment lib ''Platform-Prod'' [''Network'', ''EKS'']\<rparr>"
    using Platform_Inr(2,4) [OF q2] by (simp add: application_stage_def)
qed

lemma Pipeline_environments:
  assumes "Pipeline network lib n environ cli i e = Inr (pl, n')"
  shows "environ CDK_DEFAULT_REGION = Some (region (stage_env (pre_prod_platform_stage pl)))"
    and "environ CDK_DEFAULT_ACCOUNT = Some (account (stage_env (pre_prod_platform_stage pl)))"
    and "region (stage_env (prod_platform_stage pl)) = ''eu-central-1''"
    and "environ CDK_DEFAULT_ACCOUNT = Some (account (stage_env (prod_platform_stage pl)))"
proof -
  note P = Pipeline_Inr [OF assms]
  from P(1) obtain env0 where
    e0: "default_environment environ = Inr env0" and
    q1: "Platform network lib n ''Platform-PreProd'' env0 None
           (Some (PyStr ''pre-prod'')) Map.empty = Inr (pre_prod_platform_stage pl, Suc n)"
    by blast
  from P(2) obtain a where
    a: "environ CDK_DEFAULT_ACCOUNT = Some a" and
    q2: "Platform network lib (Suc n) ''Platform-Prod''
           \<lparr>account = a, region = ''eu-central-1''\<rparr> None None Map.empty
           = Inr (prod_platform_stage pl, n')"
    by blast
  have s1: "stage_env (pre_prod_platform_stage pl) = env0"
    using Platform_Inr(3) [OF q1] .
  have s2: "stage_env (prod_platform_stage pl) = \<lparr>account = a, region = ''eu-central-1''\<rparr>"
    using Platform_Inr(3) [OF q2] .
  show "environ CDK_DEFAULT_REGION = Some (region (stage_env (pre_prod_platform_stage pl)))"
    "environ CDK_DEFAULT_ACCOUNT = Some (account (stage_env (pre_prod_platform_stage pl)))"
    using e0 s1 by (simp_all add: default_environment_Inr)
  show "region (stage_env (prod_platform_stage pl)) = ''eu-central-1''"
    "environ CDK_DEFAULT_ACCOUNT = Some (account (stage_env (prod_platform_stage pl)))"
    using a s2 by simp_all
qed

subsection \<open>When the pipeline is produced\<close>

lemma Platform_default_ok:
  assumes "fetch_policy_statements lib n = Inr stmts"
    and "ena = None \<or> (\<exists>b. ena = Some (PyStr b))"
  shows "\<exists>p. Platform network lib n sid e od ena Map.empty = Inr (p, Suc n)"
proof -
  have cn: "platform_cluster_name Map.empty = PyStr ''eks''"
    by (simp add: platform_cluster_name_def)
  from assms(2) obtain b where en: "env_name_of ena = PyStr b"
    by (auto simp: env_name_of_def)
  from Platform_ok [where kw = Map.empty and ena = ena and lib = lib and n = n
      and stmts = stmts, OF cn en assms(1)]
  show ?thesis .
qed

lemma Pipeline_ok:
  assumes "environ CDK_DEFAULT_ACCOUNT = Some a" and "environ CDK_DEFAULT_REGION = Some r"
    and "cli = Inr ver"
    and "fetch_policy_statements lib n = Inr stmtsa"
    and "fetch_policy_statements lib (Suc n) = Inr stmtsb"
  shows "\<exists>pl. Pipeline network lib n environ cli i e = Inr (pl, Suc (Suc n))"
proof -
  have e0: "default_environment environ = Inr \<lparr>account = a, region = r\<rparr>"
    using assms(1,2) by (simp add: default_environment_def subscript_def)
  obtain pre where
    q1: "Platform network lib n ''Platform-PreProd'' \<lparr>account = a, region = r\<rparr> None
           (Some (PyStr ''pre-prod'')) Map.empty = Inr (pre, Suc n)"
    using Platform_default_ok [where lib = lib and n = n and stmts = stmtsa
        and ena = "Some (PyStr ''pre-prod'')", OF assms(4)]
    by blast
  obtain prd where
    q2: "Platform network lib (Suc n) ''Platform-Prod''
           \<lparr>account = a, region = ''eu-central-1''\<rparr> None None Map.empty
           = Inr (prd, Suc (Suc n))"
    using Platform_default_ok [where lib = lib and n = "Suc n" and stmts = stmtsb
        and ena = None, OF assms(5)]
    by blast
  show ?thesis
    using assms(1,3) e0 q1 q2
    by (simp add: Pipeline_def Let_def add_pre_prod_stage_def add_prod_stage_def subscript_def)
qed

lemma example_environ_vars:
  "example_environ CDK_DEFAULT_ACCOUNT = Some ''111122223333''"
  "example_environ CDK_DEFAULT_REGION = Some ''eu-west-1''"
  "frankfurt_environ CDK_DEFAULT_ACCOUNT = Some ''111122223333''"
  "frankfurt_environ CDK_DEFAULT_REGION = Some ''eu-central-1''"
  by (simp_all add: example_environ_def frankfurt_environ_def CDK_DEFAULT_ACCOUNT_def
      CDK_DEFAULT_REGION_def)

lemma example_pipeline_ok:
  assumes "environ CDK_DEFAULT_ACCOUNT = Some a" and "environ CDK_DEFAULT_REGION = Some r"
  shows "\<exists>pl. Pipeline network example_library n environ (Inr ver) i e = Inr (pl, Suc (Suc n))"
  by (rule Pipeline_ok [OF assms]) (simp_all add: example_fetch)

lemma example_deployment:
  "deployment example_library sid [''Network'', ''EKS''] =
     [(PrepareAction sid ''Network'', 1), (DeployAction sid ''Network'', 2),
      (PrepareAction sid ''EKS'', 3), (DeployAction sid ''EKS'', 4)]"
  by (simp add: example_library_def numeral_2_eq_2 numeral_3_eq_3 eval_nat_numeral)

text \<open>
  Claim C4. In every pipeline produced: the synthesis reads the artifact that the GitHub
  source action writes, and the pipeline deploys from the cloud assembly that the
  synthesis writes; the stages added are, in the order of the calls, pre-production and
  production; the pre-production stage holds the actions that the library declares for
  deploying its two stacks, followed by the manual approval
  \<open>ConfirmPreProdDeployment\<close>, whose run order is the first after those of the
  deployment and so above each of them; the production stage holds only the actions of
  its deployment, with no approval after them.
\<close>

theorem pipeline_stage_order:
  assumes "Pipeline network lib n environ cli i e = Inr (pl, n')"
  shows "source_action (engine pl) =
           GitHubSourceAction ''GitHub'' (Artifact 0) ''github-token'' ''github-user''
             ''eks-platform'' ''main''
       \<and> synth_action (engine pl) =
           SimpleSynthAction (Artifact 0) (Artifact 1)
             [''pyenv local 3.7.10'', ''./scripts/install-deps.sh''] ''npx cdk synth''
       \<and> cloud_assembly_artifact (engine pl) = Artifact 1
       \<and> map stage_name (application_stages (engine pl)) =
           [''Platform-PreProd'', ''Platform-Prod'']
       \<and> map stage_actions (application_stages (engine pl)) =
           [deployment lib ''Platform-PreProd'' [''Network'', ''EKS'']
              @ [(ManualApprovalAction ''ConfirmPreProdDeployment'',
                  Suc (fold max
                        (map snd (deployment lib ''Platform-PreProd'' [''Network'', ''EKS'']))
                        0))],
            deployment lib ''Platform-Prod'' [''Network'', ''EKS'']]
       \<and> list_all
           (\<lambda>ak. snd ak <
              Suc (fold max
                    (map snd (deployment lib ''Platform-PreProd'' [''Network'', ''EKS''])) 0))
           (deployment lib ''Platform-PreProd'' [''Network'', ''EKS''])"
proof -
  note P = Pipeline_Inr [OF assms]
  note S = Pipeline_stages [OF assms]
  let ?pre = "\<lparr>stage_name = ''Platform-PreProd'',
               stage_actions = deployment lib ''Platform-PreProd'' [''Network'', ''EKS'']\<rparr>"
  have below: "list_all (\<lambda>ak. snd ak < next_sequential_run_order ?pre) (stage_actions ?pre)"
    by (rule run_orders_below_next)
  have names: "map stage_name (application_stages (engine pl)) =
           [''Platform-PreProd'', ''Platform-Prod'']"
    unfolding P(8) S by (simp add: add_manual_approval_action_def)
  have acts: "map stage_actions (application_stages (engine pl)) =
           [deployment lib ''Platform-PreProd'' [''Network'', ''EKS'']
              @ [(ManualApprovalAction ''ConfirmPreProdDeployment'',
                  Suc (fold max
                        (map snd (deployment lib ''Platform-PreProd'' [''Network'', ''EKS'']))
                        0))],
            deployment lib ''Platform-Prod'' [''Network'', ''EKS'']]"
    unfolding P(8) S
    by (simp add: add_manual_approval_action_def next_sequential_run_order_def)
  show ?thesis
    using P(5,6,7) names acts below
    by (simp add: next_sequential_run_order_def)
qed

text \<open>
  The theorem on a pipeline that is produced, with a library that prepares and executes
  a change set for each stack: the deployment of pre-production has the run orders 1 to
  4 and the approval the run order 5.
\<close>

theorem pipeline_stage_order_witness:
  "\<not> isl (Pipeline example_network example_library 0 example_environ (Inr ''1.100.0'')
            ''Platform-Pipeline'' example_env)
   \<and> map stage_actions (application_stages (engine (fst (projr
        (Pipeline example_network example_library 0 example_environ (Inr ''1.100.0'')
            ''Platform-Pipeline'' example_env))))) =
     [[(PrepareAction ''Platform-PreProd'' ''Network'', 1),
       (DeployAction ''Platform-PreProd'' ''Network'', 2),
       (PrepareAction ''Platform-PreProd'' ''EKS'', 3),
       (DeployAction ''Platform-PreProd'' ''EKS'', 4),
       (ManualApprovalAction ''ConfirmPreProdDeployment'', 5)],
      [(PrepareAction ''Platform-Prod'' ''Network'', 1),
       (DeployAction ''Platform-Prod'' ''Network'', 2),
       (PrepareAction ''Platform-Prod'' ''EKS'', 3),
       (DeployAction ''Platform-Prod'' ''EKS'', 4)]]
   \<and> map stage_name (application_stages (engine (fst (projr
        (Pipeline example_network example_library 0 example_environ (Inr ''1.100.0'')
            ''Platform-Pipeline'' example_env))))) =
     [''Platform-PreProd'', ''Platform-Prod'']"
proof -
  obtain pl where
    r: "Pipeline example_network example_library 0 example_environ (Inr ''1.100.0'')
          ''Platform-Pipeline'' example_env = Inr (pl, Suc (Suc 0))"
    using example_pipeline_ok [OF example_environ_vars(1,2)] by blast
  from pipeline_stage_order [OF r] show ?thesis
    by (simp add: r example_deployment)
qed

text \<open>
  Claim C6, as amended. In every pipeline produced, the pre-production stage has the region
  of the variable \<open>CDK_DEFAULT_REGION\<close> and the production stage the region
  \<open>eu-central-1\<close>, and both have the account of the variable \<open>CDK_DEFAULT_ACCOUNT\<close>; so
  the regions of the two stages, and with them their environments, differ exactly when
  the default region is not \<open>eu-central-1\<close>.
\<close>

theorem stage_regions:
  assumes "Pipeline network lib n environ cli i e = Inr (pl, n')"
  shows "environ CDK_DEFAULT_REGION = Some (region (stage_env (pre_prod_platform_stage pl)))
       \<and> environ CDK_DEFAULT_ACCOUNT = Some (account (stage_env (pre_prod_platform_stage pl)))
       \<and> region (stage_env (prod_platform_stage pl)) = ''eu-central-1''
       \<and> environ CDK_DEFAULT_ACCOUNT = Some (account (stage_env (prod_platform_stage pl)))
       \<and> account (stage_env (pre_prod_platform_stage pl)) =
           account (stage_env (prod_platform_stage pl))
       \<and> (region (stage_env (pre_prod_platform_stage pl)) \<noteq>
            region (stage_env (prod_platform_stage pl)))
          = (environ CDK_DEFAULT_REGION \<noteq> Some ''eu-central-1'')
       \<and> (stage_env (pre_prod_platform_stage pl) \<noteq> stage_env (prod_platform_stage pl))
          = (environ CDK_DEFAULT_REGION \<noteq> Some ''eu-central-1'')"
proof -
  note E = Pipeline_environments [OF assms]
  have acc: "account (stage_env (pre_prod_platform_stage pl)) =
             account (stage_env (prod_platform_stage pl))"
    using E(2,4) by simp
  have reg: "(region (stage_env (pre_prod_platform_stage pl)) \<noteq>
                region (stage_env (prod_platform_stage pl)))
             = (environ CDK_DEFAULT_REGION \<noteq> Some ''eu-central-1'')"
    using E(1,3) by auto
  have "(stage_env (pre_prod_platform_stage pl) = stage_env (prod_platform_stage pl))
        = (region (stage_env (pre_prod_platform_stage pl)) =
             region (stage_env (prod_platform_stage pl)))"
    using acc
    by (cases "stage_env (pre_prod_platform_stage pl)";
        cases "stage_env (prod_platform_stage pl)") auto
  with E acc reg show ?thesis by simp
qed

text \<open>
  The theorem on a pipeline whose default region is \<open>eu-west-1\<close>: the regions differ, the
  account is the default one in both stages.
\<close>

theorem stage_regions_witness:
  "\<not> isl (Pipeline example_network example_library 0 example_environ (Inr ''1.100.0'')
            ''Platform-Pipeline'' example_env)
   \<and> region (stage_env (pre_prod_platform_stage (fst (projr
        (Pipeline example_network example_library 0 example_environ (Inr ''1.100.0'')
            ''Platform-Pipeline'' example_env))))) = ''eu-west-1''
   \<and> region (stage_env (prod_platform_stage (fst (projr
        (Pipeline example_network example_library 0 example_environ (Inr ''1.100.0'')
            ''Platform-Pipeline'' example_env))))) = ''eu-central-1''
   \<and> account (stage_env (pre_prod_platform_stage (fst (projr
        (Pipeline example_network example_library 0 example_environ (Inr ''1.100.0'')
            ''Platform-Pipeline'' example_env))))) = ''111122223333''
   \<and> account (stage_env (prod_platform_stage (fst (projr
        (Pipeline example_network example_library 0 example_environ (Inr ''1.100.0'')
            ''Platform-Pipeline'' example_env))))) = ''111122223333''
   \<and> stage_env (pre_prod_platform_stage (fst (projr
        (Pipeline example_network example_library 0 example_environ (Inr ''1.100.0'')
            ''Platform-Pipeline'' example_env)))) \<noteq>
     stage_env (prod_platform_stage (fst (projr
        (Pipeline example_network example_library 0 example_environ (Inr ''1.100.0'')
            ''Platform-Pipeline'' example_env))))"
proof -
  obtain pl where
    r: "Pipeline example_network example_library 0 example_environ (Inr ''1.100.0'')
          ''Platform-Pipeline'' example_env = Inr (pl, Suc (Suc 0))"
    using example_pipeline_ok [OF example_environ_vars(1,2)] by blast
  from stage_regions [OF r] show ?thesis
    by (simp add: r example_environ_vars)
qed

text \<open>
  Claim C6 as stated fails when the default region is itself \<open>eu-central-1\<close>: the pipeline
  is produced and its two stages have the same region, and the same account.
\<close>

theorem stage_regions_coincide:
  "\<not> isl (Pipeline example_network example_library 0 frankfurt_environ (Inr ''1.100.0'')
            ''Platform-Pipeline'' example_env)
   \<and> region (stage_env (pre_prod_platform_stage (fst (projr
        (Pipeline example_network example_library 0 frankfurt_environ (Inr ''1.100.0'')
            ''Platform-Pipeline'' example_env))))) =
     region (stage_env (prod_platform_stage (fst (projr
        (Pipeline example_network example_library 0 frankfurt_environ (Inr ''1.100.0'')
            ''Platform-Pipeline'' example_env)))))
   \<and> account (stage_env (pre_prod_platform_stage (fst (projr
        (Pipeline example_network example_library 0 frankfurt_environ (Inr ''1.100.0'')
            ''Platform-Pipeline'' example_env))))) =
     account (stage_env (prod_platform_stage (fst (projr
        (Pipeline example_network example_library 0 frankfurt_environ (Inr ''1.100.0'')
            ''Platform-Pipeline'' example_env)))))"
proof -
  obtain pl where
    r: "Pipeline example_network example_library 0 frankfurt_environ (Inr ''1.100.0'')
          ''Platform-Pipeline'' example_env = Inr (pl, Suc (Suc 0))"
    using example_pipeline_ok [OF example_environ_vars(3,4)] by blast
  from Pipeline_environments [OF r] show ?thesis
    by (simp add: r example_environ_vars)
qed

end
